theory Spec2Isabelle
  imports Main "HOL-Library.Word" "HOL-Library.Sublist"
begin

unbundle bit_operations_syntax

section \<open>Python values shared by the three adapters\<close>

text \<open>
  Exceptions are values. \<open>ValueError\<close> is what \<open>os.environ[k] = v\<close> and a path raise for
  an embedded null byte, \<open>RuntimeError\<close> what \<open>Path.resolve\<close> raises for a symlink loop,
  \<open>FileNotFoundError\<close> what reading a missing file raises,
  \<open>FileExistsError\<close> what \<open>tempfile\<close> raises when it runs out of names, and
  \<open>Raised s\<close> stands for any exception, identified by \<open>s\<close>, that an external
  collaborator (the hosting SDK, the artifact store, the boosting library) raises.
\<close>

datatype error =
  ValueError | RuntimeError | FileNotFoundError string | FileExistsError | Raised string

text \<open>\<open>s.startswith(p)\<close>.\<close>

definition startswith :: "string \<Rightarrow> string \<Rightarrow> bool" where
  "startswith s p = (take (length p) s = p)"

section \<open>The Hugging Face model deployer\<close>

subsection \<open>Constants and data\<close>

definition ZENM_ENDPOINT_PREFIX :: string where
  "ZENM_ENDPOINT_PREFIX = ''zenml-''"

definition UUID_SLICE_LENGTH :: nat where
  "UUID_SLICE_LENGTH = 8"

text \<open>
  A \<open>UUID\<close> is its 128-bit integer. \<open>str\<close> of it is the 32 lower-case hexadecimal digits
  of that integer, most significant first, grouped 8-4-4-4-12 by hyphens.
\<close>

type_synonym UUID = "128 word"

definition hexdigit :: "nat \<Rightarrow> char" where
  "hexdigit n = ''0123456789abcdef'' ! (n mod 16)"

definition nibble :: "UUID \<Rightarrow> nat \<Rightarrow> nat" where
  "nibble u i = unat (drop_bit (4 * (31 - i)) u AND 15)"

definition uuid_hex :: "UUID \<Rightarrow> string" where
  "uuid_hex u = map (\<lambda>i. hexdigit (nibble u i)) [0..<32]"

definition uuid_str :: "UUID \<Rightarrow> string" where
  "uuid_str u =
     (let x = uuid_hex u
      in take 8 x @ ''-'' @ take 4 (drop 8 x) @ ''-'' @ take 4 (drop 12 x) @ ''-''
           @ take 4 (drop 16 x) @ ''-'' @ drop 20 x)"

text \<open>The deployer's own settings: the two credentials it exports.\<close>

record HuggingFaceModelDeployerConfig =
  token :: string
  namespace :: string

text \<open>
  Of the service configuration the deployer reads and writes \<open>endpoint_name\<close> only; the
  service is the pair of the model's UUID and that configuration.
\<close>

record HuggingFaceServiceConfig =
  endpoint_name :: string

record HuggingFaceDeploymentService =
  uuid :: UUID
  config :: HuggingFaceServiceConfig

subsection \<open>The process environment and the external collaborators\<close>

type_synonym environ = "string \<rightharpoonup> string"

text \<open>
  Every call that leaves the deployer: the artifact store (\<open>save_artifact\<close>,
  \<open>log_artifact_metadata\<close>), the remote lifecycle of a service (\<open>service.start\<close>,
  \<open>service.stop\<close>) and the two reads of \<open>Client()\<close> for telemetry.
\<close>

datatype call =
    Save_artifact HuggingFaceDeploymentService string string bool
  | Log_artifact_metadata string string "string \<times> string \<times> HuggingFaceServiceConfig"
  | Service_start HuggingFaceDeploymentService int
  | Service_stop HuggingFaceDeploymentService int bool
  | Client_active_stack
  | Client_zen_store_type

text \<open>
  The state the deployer acts on: \<open>os.environ\<close>, and the log of the external calls made
  so far, each with the environment it was made in.
\<close>

record world =
  environ :: environ
  calls :: "(call \<times> environ) list"

text \<open>
  What the sources do not fix: the imported artifact name, and whether an external call
  raises (it may depend on the call and on everything that happened before).
\<close>

record externals =
  HUGGINGFACE_SERVICE_ARTIFACT :: string
  raises :: "call \<Rightarrow> world \<Rightarrow> error option"

text \<open>
  A statement is a function from the state to an outcome and the state it leaves. An
  exception skips whatever follows it, and keeps the state reached so far.
\<close>

type_synonym 'a action = "world \<Rightarrow> (error + 'a) \<times> world"

definition ret :: "'a \<Rightarrow> 'a action" where
  "ret x w = (Inr x, w)"

definition andthen :: "'a action \<Rightarrow> ('a \<Rightarrow> 'b action) \<Rightarrow> 'b action" where
  "andthen m f w = (case m w of (Inl e, w') \<Rightarrow> (Inl e, w') | (Inr x, w') \<Rightarrow> f x w')"

definition external :: "externals \<Rightarrow> call \<Rightarrow> unit action" where
  "external X c w =
     (let w' = w\<lparr>calls := calls w @ [(c, environ w)]\<rparr>
      in case raises X c w of Some e \<Rightarrow> (Inl e, w') | None \<Rightarrow> (Inr (), w'))"

text \<open>\<open>os.environ[k] = v\<close> and \<open>os.environ.pop(k, None)\<close>.\<close>

definition environ_setitem :: "string \<Rightarrow> string \<Rightarrow> unit action" where
  "environ_setitem k v w =
     (if CHR 0x00 \<in> set k \<or> CHR 0x00 \<in> set v then (Inl ValueError, w)
      else (Inr (), w\<lparr>environ := (environ w)(k \<mapsto> v)\<rparr>))"

definition environ_pop :: "string \<Rightarrow> string option action" where
  "environ_pop k w = (Inr (environ w k), w\<lparr>environ := (environ w)(k := None)\<rparr>)"

subsection \<open>The deployer's methods\<close>

text \<open>
  The methods of \<open>HuggingFaceModelDeployer\<close>, statement by statement. \<open>self\<close> is the
  deployer's configuration; \<open>_create_new_service\<close> and \<open>_clean_up_existing_service\<close> are
  written without their leading underscore, and the arguments \<open>set\<close> and \<open>id\<close> with a
  prime. Timeouts are always passed (the default value of the base class is not among
  the sources). Logging, the \<open>cast\<close>s and the analytics handler that wraps the body of
  \<open>perform_deploy_model\<close> are left out: they touch neither the environment nor the calls
  below. What a remote call does to the service object itself is not modelled.
\<close>

definition prepare_environment_variable ::
  "HuggingFaceModelDeployerConfig \<Rightarrow> bool \<Rightarrow> unit action" where
  "prepare_environment_variable self set' =
     (if set' then
        andthen (environ_setitem ''HF_TOKEN'' (token self))
          (\<lambda>_. environ_setitem ''HF_NAMESPACE'' (namespace self))
      else
        andthen (environ_pop ''HF_TOKEN'')
          (\<lambda>_. andthen (environ_pop ''HF_NAMESPACE'') (\<lambda>_. ret ())))"

definition modify_endpoint_name :: "string \<Rightarrow> string \<Rightarrow> string" where
  "modify_endpoint_name endpoint_name' artifact_version =
     (let endpoint_name' =
            (if \<not> startswith endpoint_name' ZENM_ENDPOINT_PREFIX
             then ZENM_ENDPOINT_PREFIX @ endpoint_name' else endpoint_name')
      in endpoint_name' @ artifact_version)"

definition create_new_service ::
  "externals \<Rightarrow> UUID \<Rightarrow> int \<Rightarrow> HuggingFaceServiceConfig \<Rightarrow> HuggingFaceDeploymentService action"
  where
  "create_new_service X id' timeout cfg =
     (let service = \<lparr>uuid = id', config = cfg\<rparr>;
          artifact_version = take UUID_SLICE_LENGTH (uuid_str id');
          service = service\<lparr>config := (config service)\<lparr>endpoint_name :=
                      modify_endpoint_name (endpoint_name (config service)) artifact_version\<rparr>\<rparr>
      in andthen (external X (Save_artifact service (HUGGINGFACE_SERVICE_ARTIFACT X)
                                artifact_version True))
        (\<lambda>_. let service_metadata = (uuid_str (uuid service), config service)
          in andthen (external X (Log_artifact_metadata (HUGGINGFACE_SERVICE_ARTIFACT X)
                                    artifact_version
                                    (HUGGINGFACE_SERVICE_ARTIFACT X, service_metadata)))
        (\<lambda>_. andthen (external X (Service_start service timeout))
        (\<lambda>_. ret service))))"

definition clean_up_existing_service ::
  "externals \<Rightarrow> HuggingFaceModelDeployerConfig \<Rightarrow> int \<Rightarrow> bool
     \<Rightarrow> HuggingFaceDeploymentService \<Rightarrow> unit action" where
  "clean_up_existing_service X self timeout force existing_service =
     andthen (prepare_environment_variable self True)
       (\<lambda>_. andthen (external X (Service_stop existing_service timeout force))
       (\<lambda>_. prepare_environment_variable self False))"

definition perform_deploy_model ::
  "externals \<Rightarrow> HuggingFaceModelDeployerConfig \<Rightarrow> UUID \<Rightarrow> HuggingFaceServiceConfig \<Rightarrow> int
     \<Rightarrow> HuggingFaceDeploymentService action" where
  "perform_deploy_model X self id' cfg timeout =
     andthen (prepare_environment_variable self True)
       (\<lambda>_. andthen (create_new_service X id' timeout cfg)
       (\<lambda>service. andthen (prepare_environment_variable self False)
       (\<lambda>_. andthen (external X Client_active_stack)
       (\<lambda>_. andthen (external X Client_zen_store_type)
       (\<lambda>_. ret service)))))"

definition perform_stop_model ::
  "externals \<Rightarrow> HuggingFaceModelDeployerConfig \<Rightarrow> HuggingFaceDeploymentService \<Rightarrow> int \<Rightarrow> bool
     \<Rightarrow> HuggingFaceDeploymentService action" where
  "perform_stop_model X self service timeout force =
     andthen (prepare_environment_variable self True)
       (\<lambda>_. andthen (external X (Service_stop service timeout force))
       (\<lambda>_. andthen (prepare_environment_variable self False)
       (\<lambda>_. ret service)))"

definition perform_start_model ::
  "externals \<Rightarrow> HuggingFaceModelDeployerConfig \<Rightarrow> HuggingFaceDeploymentService \<Rightarrow> int
     \<Rightarrow> HuggingFaceDeploymentService action" where
  "perform_start_model X self service timeout =
     andthen (prepare_environment_variable self True)
       (\<lambda>_. andthen (external X (Service_start service timeout))
       (\<lambda>_. andthen (prepare_environment_variable self False)
       (\<lambda>_. ret service)))"

definition perform_delete_model ::
  "externals \<Rightarrow> HuggingFaceModelDeployerConfig \<Rightarrow> HuggingFaceDeploymentService \<Rightarrow> int \<Rightarrow> bool
     \<Rightarrow> unit action" where
  "perform_delete_model X self service timeout force =
     andthen (prepare_environment_variable self True)
       (\<lambda>_. andthen (clean_up_existing_service X self timeout force service)
       (\<lambda>_. prepare_environment_variable self False))"

subsection \<open>Notions the statements about the deployer use\<close>

text \<open>The external calls made between two states, and an environment with the credentials.\<close>

abbreviation new_calls :: "world \<Rightarrow> world \<Rightarrow> (call \<times> environ) list" where
  "new_calls w w' \<equiv> drop (length (calls w)) (calls w')"

abbreviation credentials :: "HuggingFaceModelDeployerConfig \<Rightarrow> environ \<Rightarrow> environ" where
  "credentials self env \<equiv> env(''HF_TOKEN'' \<mapsto> token self, ''HF_NAMESPACE'' \<mapsto> namespace self)"

text \<open>A name that \<^emph>\<open>contains exactly one leading\<close> prefix: it starts with one, and what follows does not.\<close>

definition exactly_one_leading_prefix :: "string \<Rightarrow> bool" where
  "exactly_one_leading_prefix s =
     (startswith s ZENM_ENDPOINT_PREFIX
      \<and> \<not> startswith (drop (length ZENM_ENDPOINT_PREFIX) s) ZENM_ENDPOINT_PREFIX)"

text \<open>
  Whether a log holds a remote stop and a later call after it: the least that
  \<^emph>\<open>stop first, release afterwards\<close> asks of the calls a deletion makes.
\<close>

fun stop_then_another :: "call list \<Rightarrow> bool" where
  "stop_then_another [] = False"
| "stop_then_another (Service_stop s t f # cs) = (cs \<noteq> [])"
| "stop_then_another (c # cs) = stop_then_another cs"

text \<open>Concrete inputs: collaborators that never fail, a remote side that times out.\<close>

definition no_failures :: externals where
  "no_failures = \<lparr>HUGGINGFACE_SERVICE_ARTIFACT = ''hf_deployment_service'',
                  raises = (\<lambda>c w. None)\<rparr>"

definition remote_times_out :: externals where
  "remote_times_out =
     \<lparr>HUGGINGFACE_SERVICE_ARTIFACT = ''hf_deployment_service'',
      raises = (\<lambda>c w. case c of Service_start _ _ \<Rightarrow> Some (Raised ''timeout'')
                             | Service_stop _ _ _ \<Rightarrow> Some (Raised ''timeout'')
                             | _ \<Rightarrow> None)\<rparr>"

definition example_deployer :: HuggingFaceModelDeployerConfig where
  "example_deployer = \<lparr>token = ''hf_secret'', namespace = ''acme''\<rparr>"

definition example_service :: HuggingFaceDeploymentService where
  "example_service = \<lparr>uuid = 0x123e4567e89b12d3a456426614174000,
                      config = \<lparr>endpoint_name = ''zenml-demo123e4567''\<rparr>\<rparr>"

definition empty_world :: world where
  "empty_world = \<lparr>environ = Map.empty, calls = []\<rparr>"

section \<open>The XGBoost booster materializer\<close>

subsection \<open>Files, paths and temporary names\<close>

definition DEFAULT_FILENAME :: string where
  "DEFAULT_FILENAME = ''model.json''"

text \<open>\<open>os.path.join(a, b)\<close> on POSIX.\<close>

definition path_join :: "string \<Rightarrow> string \<Rightarrow> string" where
  "path_join a b =
     (if startswith b ''/'' then b
      else if a = [] \<or> last a = CHR ''/'' then a @ b
      else a @ ''/'' @ b)"

text \<open>
  The local disk and the artifact store together: what each path string holds, a file
  with its content or a directory.
\<close>

datatype node = File string | Dir

type_synonym filesystem = "string \<rightharpoonup> node"

text \<open>
  \<open>tempfile\<close>: the directory it works in and the random names its generator yields, in
  order. It takes the first name that does not exist yet, and raises once the names it
  is willing to try are used up.
\<close>

record tempfile =
  gettempdir :: string
  names :: "string list"

fun first_unused :: "(string \<Rightarrow> string) \<Rightarrow> string list \<Rightarrow> filesystem \<Rightarrow> error + string" where
  "first_unused mk [] fs = Inl FileExistsError"
| "first_unused mk (n # ns) fs =
     (if fs (mk n) = None then Inr (mk n) else first_unused mk ns fs)"

text \<open>\<open>tempfile.NamedTemporaryFile(mode="w", suffix=s)\<close> creates an empty file.\<close>

definition NamedTemporaryFile :: "tempfile \<Rightarrow> string \<Rightarrow> filesystem \<Rightarrow> (error + string) \<times> filesystem"
  where
  "NamedTemporaryFile T suffix' fs =
     (case first_unused (\<lambda>n. path_join (gettempdir T) (''tmp'' @ n @ suffix')) (names T) fs of
        Inl e \<Rightarrow> (Inl e, fs)
      | Inr f_name \<Rightarrow> (Inr f_name, fs(f_name \<mapsto> File [])))"

text \<open>\<open>tempfile.TemporaryDirectory(prefix=p)\<close> creates an empty directory.\<close>

definition TemporaryDirectory :: "tempfile \<Rightarrow> string \<Rightarrow> filesystem \<Rightarrow> (error + string) \<times> filesystem"
  where
  "TemporaryDirectory T prefix' fs =
     (case first_unused (\<lambda>n. path_join (gettempdir T) (prefix' @ n)) (names T) fs of
        Inl e \<Rightarrow> (Inl e, fs)
      | Inr temp_dir \<Rightarrow> (Inr temp_dir, fs(temp_dir \<mapsto> Dir)))"

text \<open>
  Leaving the \<open>with\<close> block: the file is deleted; the directory is, with every path
  inside it (every path that starts with the directory and a separator).
\<close>

definition unlink :: "string \<Rightarrow> filesystem \<Rightarrow> filesystem" where
  "unlink f_name fs = fs(f_name := None)"

definition rmtree :: "string \<Rightarrow> filesystem \<Rightarrow> filesystem" where
  "rmtree d fs = (\<lambda>p. if p = d \<or> startswith p (path_join d []) then None else fs p)"

subsection \<open>The collaborators\<close>

text \<open>
  The boosting library, by what it does to the bytes: \<open>booster.save_model\<close> produces the
  JSON document of a model or raises, \<open>booster.load_model\<close> builds a model from a
  document or raises. Both work on local paths only.
\<close>

record 'b xgb =
  save_model :: "'b \<Rightarrow> error + string"
  load_model :: "string \<Rightarrow> error + 'b"

definition Booster_save_model :: "'b xgb \<Rightarrow> 'b \<Rightarrow> string \<Rightarrow> filesystem \<Rightarrow> (error + unit) \<times> filesystem"
  where
  "Booster_save_model L booster fname fs =
     (case save_model L booster of
        Inl e \<Rightarrow> (Inl e, fs)
      | Inr json \<Rightarrow> (Inr (), fs(fname \<mapsto> File json)))"

definition Booster_load_model :: "'b xgb \<Rightarrow> string \<Rightarrow> filesystem \<Rightarrow> (error + 'b) \<times> filesystem"
  where
  "Booster_load_model L fname fs =
     (case fs fname of
        Some (File json) \<Rightarrow> (load_model L json, fs)
      | _ \<Rightarrow> (Inl (FileNotFoundError fname), fs))"

text \<open>
  Modelled from the spec: \<open>fileio.copy\<close> (\<open>zenml.io.fileio\<close> is not among the sources).
  The spec has \<open>load\<close> copy the fixed-name file from the artifact URI into the temporary
  directory and \<open>save\<close> copy the temporary file into the artifact URI, and has an I/O
  error propagate: the destination receives the content of the source file, and a source
  that is not a file is an error.
\<close>

definition fileio_copy :: "string \<Rightarrow> string \<Rightarrow> filesystem \<Rightarrow> (error + unit) \<times> filesystem" where
  "fileio_copy src dst fs =
     (case fs src of
        Some (File content) \<Rightarrow> (Inr (), fs(dst \<mapsto> File content))
      | _ \<Rightarrow> (Inl (FileNotFoundError src), fs))"

subsection \<open>The materializer's methods\<close>

text \<open>
  \<open>self.uri\<close> is the argument \<open>uri\<close>; \<open>data_type\<close> is not read by \<open>load\<close>. Both
  methods are given the copy they call, so that what they do can be stated for any
  behaviour of \<open>fileio.copy\<close>, any error and any effect, and for \<open>fileio_copy\<close> above.
\<close>

type_synonym copy = "string \<Rightarrow> string \<Rightarrow> filesystem \<Rightarrow> (error + unit) \<times> filesystem"

definition load :: "'b xgb \<Rightarrow> copy \<Rightarrow> tempfile \<Rightarrow> string \<Rightarrow> filesystem \<Rightarrow> (error + 'b) \<times> filesystem"
  where
  "load L copy T uri fs =
     (let filepath = path_join uri DEFAULT_FILENAME
      in case TemporaryDirectory T ''zenml-temp-'' fs of
           (Inl e, fs) \<Rightarrow> (Inl e, fs)
         | (Inr temp_dir, fs) \<Rightarrow>
             (let temp_file = path_join temp_dir DEFAULT_FILENAME;
                  (r, fs) = (case copy filepath temp_file fs of
                               (Inl e, fs) \<Rightarrow> (Inl e, fs)
                             | (Inr _, fs) \<Rightarrow> Booster_load_model L temp_file fs)
              in (r, rmtree temp_dir fs)))"

definition save ::
  "'b xgb \<Rightarrow> copy \<Rightarrow> tempfile \<Rightarrow> string \<Rightarrow> 'b \<Rightarrow> filesystem \<Rightarrow> (error + unit) \<times> filesystem"
  where
  "save L copy T uri booster fs =
     (let filepath = path_join uri DEFAULT_FILENAME
      in case NamedTemporaryFile T ''.json'' fs of
           (Inl e, fs) \<Rightarrow> (Inl e, fs)
         | (Inr f_name, fs) \<Rightarrow>
             (let (r, fs) = (case Booster_save_model L booster f_name fs of
                               (Inl e, fs) \<Rightarrow> (Inl e, fs)
                             | (Inr _, fs) \<Rightarrow> copy f_name filepath fs)
              in (r, unlink f_name fs)))"

section \<open>The TFRecords directory datasource\<close>

subsection \<open>Paths, symbolic links and the directory tree\<close>

text \<open>
  A file is found by its location: the components of its absolute path, none of them a
  symbolic link. The tree holds the working directory (as \<open>os.getcwd()\<close> gives it), the
  symbolic links (location and target string), the files with their content, the number
  of links a resolution follows before it takes the path for a loop, and the log of the
  calls made to \<open>copy_dir\<close>, with the two path strings each was handed.
\<close>

record tree =
  cwd :: string
  links :: "string list \<rightharpoonup> string"
  files :: "string list \<rightharpoonup> string"
  max_links :: nat
  copy_dir_calls :: "(string \<times> string) list"

text \<open>\<open>split_path\<close> cuts a path string at every \<open>/\<close>.\<close>

fun split_path :: "string \<Rightarrow> string list" where
  "split_path [] = [[]]"
| "split_path (c # cs) =
     (if c = CHR ''/'' then [] # split_path cs
      else (case split_path cs of [] \<Rightarrow> [[c]] | x # xs \<Rightarrow> (c # x) # xs))"

text \<open>
  \<open>walk\<close> follows the components from the location \<open>acc\<close> reached so far: an empty
  component and \<open>.\<close> stay, \<open>..\<close> steps back (at the root it stays at the root), a
  symbolic link is replaced by its target, which starts again from the root when it is
  absolute and from the directory of the link otherwise, and any other name is entered.
  A null byte is a \<open>ValueError\<close>; a path that asks for more links than are allowed is a
  symlink loop, which \<open>Path.resolve\<close> reports as a \<open>RuntimeError\<close>.
\<close>

fun walk :: "(string list \<rightharpoonup> string) \<Rightarrow> nat \<Rightarrow> string list \<Rightarrow> string list \<Rightarrow> error + string list"
  where
  "walk ln fuel acc [] = Inr acc"
| "walk ln fuel acc (c # cs) =
     (if CHR 0x00 \<in> set c then Inl ValueError
      else if c = [] \<or> c = ''.'' then walk ln fuel acc cs
      else if c = ''..'' then walk ln fuel (butlast acc) cs
      else (case ln (acc @ [c]) of
              None \<Rightarrow> walk ln fuel (acc @ [c]) cs
            | Some target \<Rightarrow>
                (case fuel of
                   0 \<Rightarrow> Inl RuntimeError
                 | Suc n \<Rightarrow> walk ln n (if startswith target ''/'' then [] else acc)
                              (split_path target @ cs))))"

text \<open>
  \<open>Path(p).resolve()\<close>: a relative path starts from the working directory; the result is
  the location the path names. The operating system finds what a path string names the
  same way. \<open>str\<close> of a resolved path writes its components after \<open>/\<close> each.
\<close>

definition resolve :: "tree \<Rightarrow> string \<Rightarrow> error + string list" where
  "resolve w p =
     (if CHR 0x00 \<in> set p then Inl ValueError
      else walk (links w) (max_links w) []
             ((if startswith p ''/'' then [] else split_path (cwd w)) @ split_path p))"

definition str_path :: "string list \<Rightarrow> string" where
  "str_path p = (if p = [] then ''/'' else concat (map (\<lambda>c. ''/'' @ c) p))"

text \<open>
  Modelled from the spec: \<open>path_utils.copy_dir\<close> (\<open>zenml.utils.path_utils\<close> is not among the
  sources). The spec has it copy the full contents of the source directory recursively to
  the output path: every file under the source, by relative path and content, with no
  filtering and no transformation. Whatever else the output path held stays. The call is
  logged with the path strings as they were handed over; a path the operating system
  cannot resolve is an error, and nothing is copied.
\<close>

definition copy_dir :: "string \<Rightarrow> string \<Rightarrow> tree \<Rightarrow> (error + unit) \<times> tree" where
  "copy_dir source_dir destination_dir w =
     (let w = w\<lparr>copy_dir_calls := copy_dir_calls w @ [(source_dir, destination_dir)]\<rparr>
      in case resolve w source_dir of
           Inl e \<Rightarrow> (Inl e, w)
         | Inr s \<Rightarrow>
             (case resolve w destination_dir of
                Inl e \<Rightarrow> (Inl e, w)
              | Inr d \<Rightarrow>
                  (Inr (),
                   w\<lparr>files := (\<lambda>q. if prefix d q
                                     then (case files w (s @ drop (length d) q) of
                                             Some content \<Rightarrow> Some content
                                           | None \<Rightarrow> files w q)
                                     else files w q)\<rparr>)))"

subsection \<open>The datasource\<close>

text \<open>
  The constructor keeps \<open>path\<close> and \<open>schema\<close> (a dictionary, or \<open>None\<close>) and hands them
  with \<open>name\<close> to the base class, which is not among the sources. \<open>process\<close> does not
  read its second argument \<open>make_beam_pipeline\<close>. An exception of \<open>resolve\<close> leaves
  \<open>process\<close> before \<open>copy_dir\<close> is called.
\<close>

record TFRecordsDatasource =
  name :: string
  path :: string
  schema :: "(string \<times> string) list option"

definition init :: "string \<Rightarrow> string \<Rightarrow> (string \<times> string) list option \<Rightarrow> TFRecordsDatasource" where
  "init name' path' schema' = \<lparr>name = name', path = path', schema = schema'\<rparr>"

definition process :: "TFRecordsDatasource \<Rightarrow> string \<Rightarrow> tree \<Rightarrow> (error + unit) \<times> tree" where
  "process self output_path w =
     (case resolve w (path self) of
        Inl e \<Rightarrow> (Inl e, w)
      | Inr p \<Rightarrow> copy_dir (str_path p) output_path w)"

subsection \<open>Notions the statements about the datasource use\<close>



section \<open>Properties of the deployer\<close>

subsection \<open>Strings and identifiers\<close>

lemma startswith_prefix: "startswith s p = prefix p s"
  by (auto simp: startswith_def prefix_def) (metis append_take_drop_id)

lemma prefix_of_append_long: "length p \<le> length s \<Longrightarrow> prefix p (s @ t) = prefix p s"
  by (auto simp: prefix_append)

lemma modify_endpoint_name_eq:
  "modify_endpoint_name n v = (if startswith n ''zenml-'' then n else ''zenml-'' @ n) @ v"
  by (simp add: modify_endpoint_name_def ZENM_ENDPOINT_PREFIX_def)

lemma modify_endpoint_name_startswith: "startswith (modify_endpoint_name n v) ''zenml-''"
  by (simp add: modify_endpoint_name_eq startswith_prefix)

lemma length_uuid_hex: "length (uuid_hex u) = 32"
  by (simp add: uuid_hex_def)

lemma upt_0_8: "[0..<8] = [0, 1, 2, 3, 4, 5, 6, 7::nat]"
  by (simp add: upt_rec)

lemma artifact_version_take: "take UUID_SLICE_LENGTH (uuid_str u) = take 8 (uuid_hex u)"
  by (simp add: UUID_SLICE_LENGTH_def uuid_str_def Let_def length_uuid_hex)

lemma artifact_version_hex:
  "take UUID_SLICE_LENGTH (uuid_str u) = map (\<lambda>i. hexdigit (nibble u i)) [0..<8]"
  by (simp add: artifact_version_take uuid_hex_def take_map)

lemma hexdigit_mem: "hexdigit n \<in> set ''0123456789abcdef''"
  unfolding hexdigit_def by (rule nth_mem) simp

lemma hexdigit_neq:
  "hexdigit n \<noteq> CHR ''z''" "hexdigit n \<noteq> CHR ''n''" "hexdigit n \<noteq> CHR ''m''"
  "hexdigit n \<noteq> CHR ''l''" "hexdigit n \<noteq> CHR ''-''"
  using hexdigit_mem[of n] by auto

lemma artifact_version_chars:
  "set (take UUID_SLICE_LENGTH (uuid_str u)) \<subseteq> set ''0123456789abcdef''"
proof
  fix c assume "c \<in> set (take UUID_SLICE_LENGTH (uuid_str u))"
  then obtain i where "c = hexdigit (nibble u i)"
    unfolding artifact_version_hex by auto
  then show "c \<in> set ''0123456789abcdef''"
    using hexdigit_mem by blast
qed

lemma no_prefix_after_hex:
  assumes "\<not> prefix ''zenml-'' s"
  shows "\<not> prefix ''zenml-'' (s @ hexdigit i # hexdigit j # rest)"
proof (cases "6 \<le> length s")
  case True
  then show ?thesis using assms by (simp add: prefix_of_append_long)
next
  case False
  then have "length s = 0 \<or> length s = 1 \<or> length s = 2 \<or> length s = 3
               \<or> length s = 4 \<or> length s = 5"
    by arith
  then show ?thesis
    by (auto simp: length_Suc_conv numeral_eq_Suc hexdigit_neq hexdigit_neq[symmetric])
qed

lemma nibble_top:
  assumes "i < 8"
  shows "nibble u i = unat (drop_bit (4 * (7 - i)) (drop_bit 96 u) AND 15)"
proof -
  from assms have "4 * (31 - i) = 4 * (7 - i) + 96" by arith
  then show ?thesis by (simp add: nibble_def drop_bit_drop_bit add.commute)
qed

lemma example_version:
  assumes "drop_bit 96 u = (0x123e4567 :: UUID)"
  shows "take UUID_SLICE_LENGTH (uuid_str u) = ''123e4567''"
  unfolding artifact_version_hex upt_0_8 using assms
  by (simp add: nibble_top hexdigit_def)

subsection \<open>What each method does, step by step\<close>

lemma prepare_False:
  "prepare_environment_variable self False w =
     (Inr (), w\<lparr>environ := (environ w)(''HF_TOKEN'' := None, ''HF_NAMESPACE'' := None)\<rparr>)"
  by (simp add: prepare_environment_variable_def andthen_def environ_pop_def ret_def)

lemma prepare_True:
  "prepare_environment_variable self True w =
     (if CHR 0x00 \<in> set (token self) then (Inl ValueError, w)
      else if CHR 0x00 \<in> set (namespace self)
        then (Inl ValueError, w\<lparr>environ := (environ w)(''HF_TOKEN'' \<mapsto> token self)\<rparr>)
      else (Inr (), w\<lparr>environ := credentials self (environ w)\<rparr>))"
  by (simp add: prepare_environment_variable_def andthen_def environ_setitem_def)

lemmas deployer_defs = perform_deploy_model_def perform_start_model_def perform_stop_model_def
  perform_delete_model_def clean_up_existing_service_def create_new_service_def
  prepare_True prepare_False andthen_def external_def ret_def Let_def

lemma perform_stop_model_run:
  "perform_stop_model X self service timeout force w =
     (if CHR 0x00 \<in> set (token self) then (Inl ValueError, w)
      else if CHR 0x00 \<in> set (namespace self)
        then (Inl ValueError, w\<lparr>environ := (environ w)(''HF_TOKEN'' \<mapsto> token self)\<rparr>)
      else let w1 = w\<lparr>environ := credentials self (environ w)\<rparr>;
               w2 = w1\<lparr>calls := calls w @ [(Service_stop service timeout force, environ w1)]\<rparr>
        in case raises X (Service_stop service timeout force) w1 of
             Some e \<Rightarrow> (Inl e, w2)
           | None \<Rightarrow> (Inr service,
               w2\<lparr>environ := (environ w2)(''HF_TOKEN'' := None, ''HF_NAMESPACE'' := None)\<rparr>))"
  by (simp add: deployer_defs split: option.splits)

lemma perform_start_model_run:
  "perform_start_model X self service timeout w =
     (if CHR 0x00 \<in> set (token self) then (Inl ValueError, w)
      else if CHR 0x00 \<in> set (namespace self)
        then (Inl ValueError, w\<lparr>environ := (environ w)(''HF_TOKEN'' \<mapsto> token self)\<rparr>)
      else let w1 = w\<lparr>environ := credentials self (environ w)\<rparr>;
               w2 = w1\<lparr>calls := calls w @ [(Service_start service timeout, environ w1)]\<rparr>
        in case raises X (Service_start service timeout) w1 of
             Some e \<Rightarrow> (Inl e, w2)
           | None \<Rightarrow> (Inr service,
               w2\<lparr>environ := (environ w2)(''HF_TOKEN'' := None, ''HF_NAMESPACE'' := None)\<rparr>))"
  by (simp add: deployer_defs split: option.splits)

lemma perform_delete_model_run:
  "perform_delete_model X self service timeout force w =
     (if CHR 0x00 \<in> set (token self) then (Inl ValueError, w)
      else if CHR 0x00 \<in> set (namespace self)
        then (Inl ValueError, w\<lparr>environ := (environ w)(''HF_TOKEN'' \<mapsto> token self)\<rparr>)
      else let w1 = w\<lparr>environ := credentials self (environ w)\<rparr>;
               w2 = w1\<lparr>calls := calls w @ [(Service_stop service timeout force, environ w1)]\<rparr>
        in case raises X (Service_stop service timeout force) w1 of
             Some e \<Rightarrow> (Inl e, w2)
           | None \<Rightarrow> (Inr (),
               w2\<lparr>environ := (environ w2)(''HF_TOKEN'' := None, ''HF_NAMESPACE'' := None)\<rparr>))"
  by (simp add: deployer_defs split: option.splits)

lemma create_new_service_run:
  "create_new_service X id' timeout cfg w =
     (let v = take UUID_SLICE_LENGTH (uuid_str id');
          service = \<lparr>uuid = id',
                     config = cfg\<lparr>endpoint_name := modify_endpoint_name (endpoint_name cfg) v\<rparr>\<rparr>;
          N = HUGGINGFACE_SERVICE_ARTIFACT X;
          c1 = Save_artifact service N v True;
          c2 = Log_artifact_metadata N v (N, uuid_str id', config service);
          c3 = Service_start service timeout;
          w1 = w\<lparr>calls := calls w @ [(c1, environ w)]\<rparr>;
          w2 = w\<lparr>calls := calls w @ [(c1, environ w), (c2, environ w)]\<rparr>;
          w3 = w\<lparr>calls := calls w @ [(c1, environ w), (c2, environ w), (c3, environ w)]\<rparr>
      in case raises X c1 w of Some e \<Rightarrow> (Inl e, w1) | None \<Rightarrow>
        (case raises X c2 w1 of Some e \<Rightarrow> (Inl e, w2) | None \<Rightarrow>
        (case raises X c3 w2 of Some e \<Rightarrow> (Inl e, w3) | None \<Rightarrow> (Inr service, w3))))"
  by (simp add: create_new_service_def andthen_def external_def ret_def Let_def
           split: option.splits)

lemma perform_deploy_model_run:
  "perform_deploy_model X self id' cfg timeout w =
     (if CHR 0x00 \<in> set (token self) then (Inl ValueError, w)
      else if CHR 0x00 \<in> set (namespace self)
        then (Inl ValueError, w\<lparr>environ := (environ w)(''HF_TOKEN'' \<mapsto> token self)\<rparr>)
      else case create_new_service X id' timeout cfg
                  (w\<lparr>environ := credentials self (environ w)\<rparr>) of
             (Inl e, w') \<Rightarrow> (Inl e, w')
           | (Inr service, w') \<Rightarrow>
               (let env = (environ w')(''HF_TOKEN'' := None, ''HF_NAMESPACE'' := None);
                    w4 = w'\<lparr>environ := env, calls := calls w' @ [(Client_active_stack, env)]\<rparr>;
                    w5 = w4\<lparr>calls := calls w4 @ [(Client_zen_store_type, env)]\<rparr>
                in case raises X Client_active_stack (w'\<lparr>environ := env\<rparr>) of
                     Some e \<Rightarrow> (Inl e, w4)
                   | None \<Rightarrow> (case raises X Client_zen_store_type w4 of
                        Some e \<Rightarrow> (Inl e, w5) | None \<Rightarrow> (Inr service, w5))))"
  by (simp add: perform_deploy_model_def prepare_True prepare_False andthen_def external_def
        ret_def Let_def split: option.splits sum.splits prod.splits)

lemma create_new_service_environ:
  "environ (snd (create_new_service X id' timeout cfg w)) = environ w"
  by (simp add: create_new_service_run Let_def split: option.splits)

lemma create_new_service_calls_env:
  "(c, env) \<in> set (new_calls w (snd (create_new_service X id' timeout cfg w)))
     \<Longrightarrow> env = environ w \<and> c \<noteq> Client_active_stack \<and> c \<noteq> Client_zen_store_type"
  by (auto simp: create_new_service_run Let_def split: option.splits)

lemma create_new_service_calls_extend:
  "\<exists>cs. calls (snd (create_new_service X id' timeout cfg w)) = calls w @ cs"
  by (simp add: create_new_service_run Let_def split: option.splits)

lemma create_new_service_result:
  "create_new_service X id' timeout cfg w = (Inr service, w')
     \<Longrightarrow> service = \<lparr>uuid = id', config = cfg\<lparr>endpoint_name :=
            modify_endpoint_name (endpoint_name cfg) (take UUID_SLICE_LENGTH (uuid_str id'))\<rparr>\<rparr>
         \<and> map fst (new_calls w w') =
             [Save_artifact service (HUGGINGFACE_SERVICE_ARTIFACT X)
                (take UUID_SLICE_LENGTH (uuid_str id')) True,
              Log_artifact_metadata (HUGGINGFACE_SERVICE_ARTIFACT X)
                (take UUID_SLICE_LENGTH (uuid_str id'))
                (HUGGINGFACE_SERVICE_ARTIFACT X, uuid_str id', config service),
              Service_start service timeout]"
  by (auto simp: create_new_service_run Let_def split: option.splits)

subsection \<open>Credentials around the remote calls\<close>

lemma start_normal:
  "perform_start_model X self service timeout w = (Inr r, w')
     \<Longrightarrow> environ w' ''HF_TOKEN'' = None \<and> environ w' ''HF_NAMESPACE'' = None"
  by (auto simp: perform_start_model_run Let_def split: if_splits option.splits)

lemma stop_normal:
  "perform_stop_model X self service timeout force w = (Inr r, w')
     \<Longrightarrow> environ w' ''HF_TOKEN'' = None \<and> environ w' ''HF_NAMESPACE'' = None"
  by (auto simp: perform_stop_model_run Let_def split: if_splits option.splits)

lemma delete_normal:
  "perform_delete_model X self service timeout force w = (Inr r, w')
     \<Longrightarrow> environ w' ''HF_TOKEN'' = None \<and> environ w' ''HF_NAMESPACE'' = None"
  by (auto simp: perform_delete_model_run Let_def split: if_splits option.splits)

lemma deploy_normal:
  "perform_deploy_model X self id' cfg timeout w = (Inr r, w')
     \<Longrightarrow> environ w' ''HF_TOKEN'' = None \<and> environ w' ''HF_NAMESPACE'' = None"
  by (auto simp: perform_deploy_model_run Let_def
           split: if_splits option.splits sum.splits prod.splits)

lemma start_window:
  "(c, env) \<in> set (new_calls w (snd (perform_start_model X self service timeout w)))
     \<Longrightarrow> c = Service_start service timeout
         \<and> env ''HF_TOKEN'' = Some (token self) \<and> env ''HF_NAMESPACE'' = Some (namespace self)"
  by (auto simp: perform_start_model_run Let_def split: if_splits option.splits)

lemma stop_window:
  "(c, env) \<in> set (new_calls w (snd (perform_stop_model X self service timeout force w)))
     \<Longrightarrow> c = Service_stop service timeout force
         \<and> env ''HF_TOKEN'' = Some (token self) \<and> env ''HF_NAMESPACE'' = Some (namespace self)"
  by (auto simp: perform_stop_model_run Let_def split: if_splits option.splits)

lemma delete_window:
  "(c, env) \<in> set (new_calls w (snd (perform_delete_model X self service timeout force w)))
     \<Longrightarrow> c = Service_stop service timeout force
         \<and> env ''HF_TOKEN'' = Some (token self) \<and> env ''HF_NAMESPACE'' = Some (namespace self)"
  by (auto simp: perform_delete_model_run Let_def split: if_splits option.splits)

lemma deploy_window:
  assumes "(c, env) \<in> set (new_calls w (snd (perform_deploy_model X self id' cfg timeout w)))"
  shows "if c = Client_active_stack \<or> c = Client_zen_store_type
         then env ''HF_TOKEN'' = None \<and> env ''HF_NAMESPACE'' = None
         else env ''HF_TOKEN'' = Some (token self) \<and> env ''HF_NAMESPACE'' = Some (namespace self)"
proof (cases "CHR 0x00 \<in> set (token self) \<or> CHR 0x00 \<in> set (namespace self)")
  case True
  then show ?thesis using assms by (auto simp: perform_deploy_model_run)
next
  case False
  define w1 where "w1 = w\<lparr>environ := credentials self (environ w)\<rparr>"
  obtain r w' where run: "create_new_service X id' timeout cfg w1 = (r, w')"
    by (cases "create_new_service X id' timeout cfg w1")
  obtain cs where cs: "calls w' = calls w @ cs"
    using create_new_service_calls_extend[of X id' timeout cfg w1] run by (auto simp: w1_def)
  have env': "environ w' = credentials self (environ w)"
    using create_new_service_environ[of X id' timeout cfg w1] run by (simp add: w1_def)
  have inner: "(c', e') \<in> set cs \<Longrightarrow> e' = credentials self (environ w)
        \<and> c' \<noteq> Client_active_stack \<and> c' \<noteq> Client_zen_store_type" for c' e'
    using create_new_service_calls_env[of c' e' w1 X id' timeout cfg] run cs
    by (simp add: w1_def)
  have "(c, env) \<in> set cs
        \<or> ((c = Client_active_stack \<or> c = Client_zen_store_type)
            \<and> env = (environ w')(''HF_TOKEN'' := None, ''HF_NAMESPACE'' := None))"
    using assms False run cs unfolding perform_deploy_model_run w1_def[symmetric]
    by (auto simp: Let_def split: sum.splits option.splits)
  then show ?thesis
    using inner[of c env] by (auto simp: env')
qed

subsection \<open>Claims about the deployer\<close>

text \<open>
  Claim C1. For every model UUID, the artifact version is the first 8 characters of the
  UUID's string form, which are the first 8 of its 32 hexadecimal digits. The artifact
  is saved at that version, with the endpoint name of the saved service being the given
  name, prefixed if it did not start with the prefix, followed by the same 8 characters;
  the service that \<open>_create_new_service\<close> and deploy return carries that name. For a UUID
  that reads \<open>123e4567-...\<close> the version is \<open>123e4567\<close>, and a name \<open>n\<close> that does not start
  with the prefix becomes \<open>zenml-n123e4567\<close>.
\<close>

theorem deploy_version_and_suffix_from_uuid:
  "(let v = take UUID_SLICE_LENGTH (uuid_str id');
        name' = (if startswith (endpoint_name cfg) ZENM_ENDPOINT_PREFIX then endpoint_name cfg
                 else ZENM_ENDPOINT_PREFIX @ endpoint_name cfg) @ v;
        service = \<lparr>uuid = id', config = cfg\<lparr>endpoint_name := name'\<rparr>\<rparr>
    in v = take 8 (uuid_str id')
       \<and> v = take 8 (uuid_hex id')
       \<and> length v = 8
       \<and> set v \<subseteq> set ''0123456789abcdef''
       \<and> fst (calls (snd (create_new_service X id' timeout cfg w)) ! length (calls w))
           = Save_artifact service (HUGGINGFACE_SERVICE_ARTIFACT X) v True
       \<and> (\<forall>r w'. create_new_service X id' timeout cfg w = (Inr r, w') \<longrightarrow> r = service)
       \<and> (\<forall>r w'. perform_deploy_model X self id' cfg timeout w = (Inr r, w')
             \<longrightarrow> r = service
                \<and> Save_artifact service (HUGGINGFACE_SERVICE_ARTIFACT X) v True
                     \<in> fst ` set (new_calls w w'))
       \<and> (drop_bit 96 id' = 0x123e4567
             \<longrightarrow> v = ''123e4567''
                \<and> (\<not> startswith (endpoint_name cfg) ZENM_ENDPOINT_PREFIX
                      \<longrightarrow> name' = ''zenml-'' @ endpoint_name cfg @ ''123e4567'')))"
proof -
  define v where "v = take UUID_SLICE_LENGTH (uuid_str id')"
  define name' where "name' = (if startswith (endpoint_name cfg) ZENM_ENDPOINT_PREFIX
       then endpoint_name cfg else ZENM_ENDPOINT_PREFIX @ endpoint_name cfg) @ v"
  define service where "service = \<lparr>uuid = id', config = cfg\<lparr>endpoint_name := name'\<rparr>\<rparr>"
  have name_eq: "modify_endpoint_name (endpoint_name cfg) v = name'"
    by (simp add: modify_endpoint_name_eq name'_def ZENM_ENDPOINT_PREFIX_def)
  have v8: "v = take 8 (uuid_str id')"
    by (simp add: v_def UUID_SLICE_LENGTH_def)
  have vhex: "v = take 8 (uuid_hex id')"
    by (simp add: v_def artifact_version_take)
  have len: "length v = 8"
    by (simp add: vhex length_uuid_hex)
  have chars: "set v \<subseteq> set ''0123456789abcdef''"
    unfolding v_def by (rule artifact_version_chars)
  have saved: "fst (calls (snd (create_new_service X id' timeout cfg w)) ! length (calls w))
           = Save_artifact service (HUGGINGFACE_SERVICE_ARTIFACT X) v True"
    by (simp add: create_new_service_run Let_def service_def v_def[symmetric] name_eq
          nth_append split: option.splits)
  have returned: "r = service" if "create_new_service X id' timeout cfg w0 = (Inr r, w')"
    for r w0 w'
    using create_new_service_result[OF that]
    by (simp add: service_def v_def[symmetric] name_eq)
  have deployed: "r = service
        \<and> Save_artifact service (HUGGINGFACE_SERVICE_ARTIFACT X) v True \<in> fst ` set (new_calls w w')"
    if run: "perform_deploy_model X self id' cfg timeout w = (Inr r, w')" for r w'
  proof -
    define w1 where "w1 = w\<lparr>environ := credentials self (environ w)\<rparr>"
    obtain w2 where inner: "create_new_service X id' timeout cfg w1 = (Inr r, w2)"
      and ext: "\<exists>cs. calls w' = calls w2 @ cs"
      using run unfolding perform_deploy_model_run w1_def[symmetric]
      by (auto simp: Let_def split: if_splits sum.splits option.splits prod.splits)
    have r: "r = service" using returned[OF inner] .
    have log: "map fst (new_calls w1 w2) = [Save_artifact service (HUGGINGFACE_SERVICE_ARTIFACT X) v True,
              Log_artifact_metadata (HUGGINGFACE_SERVICE_ARTIFACT X) v
                (HUGGINGFACE_SERVICE_ARTIFACT X, uuid_str id', config service),
              Service_start service timeout]"
      using create_new_service_result[OF inner] r by (simp add: v_def)
    obtain cs where cs: "calls w2 = calls w @ cs"
      using create_new_service_calls_extend[of X id' timeout cfg w1] inner by (auto simp: w1_def)
    from log cs have "Save_artifact service (HUGGINGFACE_SERVICE_ARTIFACT X) v True \<in> fst ` set cs"
      by (simp add: w1_def) (metis list.set_intros(1) set_map)
    then show ?thesis using r ext cs by auto
  qed
  have example: "v = ''123e4567''" if "drop_bit 96 id' = 0x123e4567"
    unfolding v_def using that by (rule example_version)
  have example_name: "name' = ''zenml-'' @ endpoint_name cfg @ ''123e4567''"
    if "drop_bit 96 id' = 0x123e4567" and "\<not> startswith (endpoint_name cfg) ZENM_ENDPOINT_PREFIX"
    using that example by (simp add: name'_def ZENM_ENDPOINT_PREFIX_def)
  from v8 vhex len chars saved returned[where ?w0.0 = w] deployed example example_name
  show ?thesis
    unfolding Let_def v_def[symmetric] name'_def[symmetric] service_def[symmetric] by blast
qed

theorem deploy_version_and_suffix_from_uuid_witness:
  "drop_bit 96 (0x123e4567e89b12d3a456426614174000 :: UUID) = 0x123e4567
   \<and> \<not> startswith ''demo'' ZENM_ENDPOINT_PREFIX
   \<and> take UUID_SLICE_LENGTH (uuid_str 0x123e4567e89b12d3a456426614174000) = ''123e4567''
   \<and> fst (perform_deploy_model no_failures example_deployer 0x123e4567e89b12d3a456426614174000
             \<lparr>endpoint_name = ''demo''\<rparr> 300 empty_world)
       = Inr \<lparr>uuid = 0x123e4567e89b12d3a456426614174000,
              config = \<lparr>endpoint_name = ''zenml-demo123e4567''\<rparr>\<rparr>"
proof -
  have top: "drop_bit 96 (0x123e4567e89b12d3a456426614174000 :: UUID) = 0x123e4567"
    by simp
  have n: "\<not> startswith ''demo'' ZENM_ENDPOINT_PREFIX"
    by (simp add: startswith_def ZENM_ENDPOINT_PREFIX_def)
  have v: "take UUID_SLICE_LENGTH (uuid_str 0x123e4567e89b12d3a456426614174000) = ''123e4567''"
    using top by (rule example_version)
  obtain r where run: "perform_deploy_model no_failures example_deployer
        0x123e4567e89b12d3a456426614174000 \<lparr>endpoint_name = ''demo''\<rparr> 300 empty_world
      = (Inr r, snd (perform_deploy_model no_failures example_deployer
           0x123e4567e89b12d3a456426614174000 \<lparr>endpoint_name = ''demo''\<rparr> 300 empty_world))"
    by (simp add: perform_deploy_model_run create_new_service_run no_failures_def
          example_deployer_def Let_def)
  from deploy_version_and_suffix_from_uuid[of "0x123e4567e89b12d3a456426614174000"
         "\<lparr>endpoint_name = ''demo''\<rparr>" no_failures 300 empty_world example_deployer] run
  have "r = \<lparr>uuid = 0x123e4567e89b12d3a456426614174000,
             config = \<lparr>endpoint_name = ''demo''\<rparr>\<lparr>endpoint_name :=
               (if startswith (endpoint_name \<lparr>endpoint_name = ''demo''\<rparr>) ZENM_ENDPOINT_PREFIX
                then endpoint_name \<lparr>endpoint_name = ''demo''\<rparr>
                else ZENM_ENDPOINT_PREFIX @ endpoint_name \<lparr>endpoint_name = ''demo''\<rparr>)
               @ take UUID_SLICE_LENGTH (uuid_str 0x123e4567e89b12d3a456426614174000)\<rparr>\<rparr>"
    unfolding Let_def by blast
  then have r: "r = \<lparr>uuid = 0x123e4567e89b12d3a456426614174000,
                      config = \<lparr>endpoint_name = ''zenml-demo123e4567''\<rparr>\<rparr>"
    using n by (simp add: v ZENM_ENDPOINT_PREFIX_def)
  have "fst (perform_deploy_model no_failures example_deployer 0x123e4567e89b12d3a456426614174000
               \<lparr>endpoint_name = ''demo''\<rparr> 300 empty_world) = Inr r"
    using arg_cong[OF run, of fst] by simp
  with top n v r show ?thesis by simp
qed

text \<open>
  Claim C2, as stated, fails: for the endpoint name \<open>zenml-zenml-a\<close> the result of two
  applications contains two leading prefixes, not exactly one (the method only looks at
  the name it is given, and adds nothing to a name that already starts with the prefix).
\<close>

theorem modify_endpoint_name_twice_counterexample:
  "modify_endpoint_name (modify_endpoint_name ''zenml-zenml-a'' ''123e4567'') ''123e4567''
     = ''zenml-zenml-a123e4567123e4567''
   \<and> \<not> exactly_one_leading_prefix
         (modify_endpoint_name (modify_endpoint_name ''zenml-zenml-a'' ''123e4567'') ''123e4567'')"
  by (simp add: modify_endpoint_name_def exactly_one_leading_prefix_def startswith_def
        ZENM_ENDPOINT_PREFIX_def)

text \<open>
  Claim C2, amended. For every endpoint name \<open>n\<close> and artifact version \<open>v\<close>, the second
  application prepends nothing and appends \<open>v\<close> once more: the result is \<open>n\<close>, with the
  prefix put in front only if \<open>n\<close> did not start with it, followed by \<open>v\<close> twice. It
  starts with the prefix, and its length shows that the two applications together add at
  most one prefix. It contains exactly one leading prefix whenever \<open>n\<close> carried at most
  one and \<open>v\<close> is the artifact version of a UUID.
\<close>

theorem modify_endpoint_name_twice:
  "modify_endpoint_name (modify_endpoint_name n v) v = modify_endpoint_name n v @ v
   \<and> modify_endpoint_name (modify_endpoint_name n v) v
       = (if startswith n ZENM_ENDPOINT_PREFIX then n else ZENM_ENDPOINT_PREFIX @ n) @ v @ v
   \<and> startswith (modify_endpoint_name (modify_endpoint_name n v) v) ZENM_ENDPOINT_PREFIX
   \<and> length (modify_endpoint_name (modify_endpoint_name n v) v)
       = length n + 2 * length v + (if startswith n ZENM_ENDPOINT_PREFIX then 0 else 6)
   \<and> ((startswith n ZENM_ENDPOINT_PREFIX
          \<longrightarrow> \<not> startswith (drop (length ZENM_ENDPOINT_PREFIX) n) ZENM_ENDPOINT_PREFIX)
        \<and> v = take UUID_SLICE_LENGTH (uuid_str u)
        \<longrightarrow> exactly_one_leading_prefix (modify_endpoint_name (modify_endpoint_name n v) v))"
proof -
  have twice: "modify_endpoint_name (modify_endpoint_name n v) v
       = (if startswith n ZENM_ENDPOINT_PREFIX then n else ZENM_ENDPOINT_PREFIX @ n) @ v @ v"
    by (simp add: modify_endpoint_name_eq ZENM_ENDPOINT_PREFIX_def startswith_prefix)
  have again: "modify_endpoint_name (modify_endpoint_name n v) v = modify_endpoint_name n v @ v"
    by (simp add: modify_endpoint_name_eq startswith_prefix)
  have starts: "startswith (modify_endpoint_name (modify_endpoint_name n v) v) ZENM_ENDPOINT_PREFIX"
    by (simp add: ZENM_ENDPOINT_PREFIX_def modify_endpoint_name_startswith)
  have len: "length (modify_endpoint_name (modify_endpoint_name n v) v)
       = length n + 2 * length v + (if startswith n ZENM_ENDPOINT_PREFIX then 0 else 6)"
    by (simp add: twice ZENM_ENDPOINT_PREFIX_def)
  have one: "exactly_one_leading_prefix (modify_endpoint_name (modify_endpoint_name n v) v)"
    if clean: "startswith n ZENM_ENDPOINT_PREFIX
          \<longrightarrow> \<not> startswith (drop (length ZENM_ENDPOINT_PREFIX) n) ZENM_ENDPOINT_PREFIX"
      and v: "v = take UUID_SLICE_LENGTH (uuid_str u)"
  proof -
    obtain rest where shape: "v = hexdigit (nibble u 0) # hexdigit (nibble u 1) # rest"
      unfolding v artifact_version_hex upt_0_8 by simp
    define m where "m = (if startswith n ZENM_ENDPOINT_PREFIX
                         then drop (length ZENM_ENDPOINT_PREFIX) n else n)"
    have m_clean: "\<not> prefix ''zenml-'' m"
      using clean by (auto simp: m_def startswith_prefix ZENM_ENDPOINT_PREFIX_def)
    have whole: "modify_endpoint_name (modify_endpoint_name n v) v = ''zenml-'' @ m @ v @ v"
      unfolding twice m_def
      by (auto simp: ZENM_ENDPOINT_PREFIX_def startswith_prefix prefix_def)
    have "\<not> prefix ''zenml-'' (m @ v @ v)"
      using no_prefix_after_hex[OF m_clean, of "nibble u 0" "nibble u 1" "rest @ v"]
      by (simp add: shape)
    then show ?thesis
      unfolding whole exactly_one_leading_prefix_def
      by (simp add: ZENM_ENDPOINT_PREFIX_def startswith_prefix)
  qed
  from twice again starts len one show ?thesis by blast
qed

theorem modify_endpoint_name_twice_witness:
  "modify_endpoint_name (modify_endpoint_name ''demo'' ''123e4567'') ''123e4567''
     = ''zenml-demo123e4567123e4567''
   \<and> \<not> startswith ''demo'' ZENM_ENDPOINT_PREFIX
   \<and> ''123e4567'' = take UUID_SLICE_LENGTH (uuid_str 0x123e4567e89b12d3a456426614174000)
   \<and> exactly_one_leading_prefix
        (modify_endpoint_name (modify_endpoint_name ''demo'' ''123e4567'') ''123e4567'')"
proof -
  have v: "''123e4567'' = take UUID_SLICE_LENGTH (uuid_str 0x123e4567e89b12d3a456426614174000)"
    by (simp add: example_version)
  have n: "\<not> startswith ''demo'' ZENM_ENDPOINT_PREFIX"
    by (simp add: startswith_def ZENM_ENDPOINT_PREFIX_def)
  note inst = modify_endpoint_name_twice[of "''demo''" "''123e4567''"
                "0x123e4567e89b12d3a456426614174000"]
  have val: "modify_endpoint_name (modify_endpoint_name ''demo'' ''123e4567'') ''123e4567''
     = ''zenml-demo123e4567123e4567''"
    unfolding inst[THEN conjunct2, THEN conjunct1]
    by (simp add: startswith_def ZENM_ENDPOINT_PREFIX_def)
  from inst n v have one: "exactly_one_leading_prefix
        (modify_endpoint_name (modify_endpoint_name ''demo'' ''123e4567'') ''123e4567'')"
    by blast
  from val n v one show ?thesis by blast
qed

text \<open>
  Claim C3, as stated, fails on the path where the remote call raises: no method of the
  deployer guards its teardown, so the exception leaves the method before
  \<open>prepare_environment_variable(set=False)\<close> runs. With a remote side that times out,
  \<open>perform_stop_model\<close> returns the error and \<open>HF_TOKEN\<close> and \<open>HF_NAMESPACE\<close> are still set.
\<close>

theorem credentials_left_when_remote_call_raises:
  "fst (perform_stop_model remote_times_out example_deployer example_service 30 False empty_world)
     = Inl (Raised ''timeout'')
   \<and> environ (snd (perform_stop_model remote_times_out example_deployer example_service 30 False
                     empty_world)) ''HF_TOKEN'' = Some ''hf_secret''
   \<and> environ (snd (perform_stop_model remote_times_out example_deployer example_service 30 False
                     empty_world)) ''HF_NAMESPACE'' = Some ''acme''"
  by (simp add: perform_stop_model_run remote_times_out_def example_deployer_def empty_world_def)

text \<open>
  Claim C3, amended. For deploy, start, stop and delete: whenever the method returns
  normally, both credential variables are absent afterwards; every remote call the method
  makes (and, in deploy, every call to the artifact store) happens with both variables
  set to the deployer's token and namespace; and the two reads of \<open>Client()\<close> at the end of
  deploy happen with both variables absent. (Nothing is promised when the remote call
  raises.)
\<close>

theorem credentials_only_inside_the_window:
  "(\<forall>r w'. perform_deploy_model X self id' cfg timeout w = (Inr r, w')
       \<longrightarrow> environ w' ''HF_TOKEN'' = None \<and> environ w' ''HF_NAMESPACE'' = None)
   \<and> (\<forall>r w'. perform_start_model X self service timeout w = (Inr r, w')
       \<longrightarrow> environ w' ''HF_TOKEN'' = None \<and> environ w' ''HF_NAMESPACE'' = None)
   \<and> (\<forall>r w'. perform_stop_model X self service timeout force w = (Inr r, w')
       \<longrightarrow> environ w' ''HF_TOKEN'' = None \<and> environ w' ''HF_NAMESPACE'' = None)
   \<and> (\<forall>r w'. perform_delete_model X self service timeout force w = (Inr r, w')
       \<longrightarrow> environ w' ''HF_TOKEN'' = None \<and> environ w' ''HF_NAMESPACE'' = None)
   \<and> (\<forall>c env. (c, env) \<in> set (new_calls w (snd (perform_start_model X self service timeout w)))
       \<longrightarrow> c = Service_start service timeout
          \<and> env ''HF_TOKEN'' = Some (token self) \<and> env ''HF_NAMESPACE'' = Some (namespace self))
   \<and> (\<forall>c env. (c, env) \<in> set (new_calls w (snd (perform_stop_model X self service timeout force w)))
       \<longrightarrow> c = Service_stop service timeout force
          \<and> env ''HF_TOKEN'' = Some (token self) \<and> env ''HF_NAMESPACE'' = Some (namespace self))
   \<and> (\<forall>c env. (c, env) \<in> set (new_calls w (snd (perform_delete_model X self service timeout force w)))
       \<longrightarrow> c = Service_stop service timeout force
          \<and> env ''HF_TOKEN'' = Some (token self) \<and> env ''HF_NAMESPACE'' = Some (namespace self))
   \<and> (\<forall>c env. (c, env) \<in> set (new_calls w (snd (perform_deploy_model X self id' cfg timeout w)))
       \<longrightarrow> (if c = Client_active_stack \<or> c = Client_zen_store_type
            then env ''HF_TOKEN'' = None \<and> env ''HF_NAMESPACE'' = None
            else env ''HF_TOKEN'' = Some (token self)
                 \<and> env ''HF_NAMESPACE'' = Some (namespace self)))"
proof (intro conjI allI impI)
  fix c env
  assume "(c, env) \<in> set (new_calls w (snd (perform_deploy_model X self id' cfg timeout w)))"
  then show "if c = Client_active_stack \<or> c = Client_zen_store_type
      then env ''HF_TOKEN'' = None \<and> env ''HF_NAMESPACE'' = None
      else env ''HF_TOKEN'' = Some (token self) \<and> env ''HF_NAMESPACE'' = Some (namespace self)"
    by (rule deploy_window)
qed (blast dest: deploy_normal start_normal stop_normal delete_normal
       start_window stop_window delete_window)+

theorem credentials_only_inside_the_window_witness:
  "perform_stop_model no_failures example_deployer example_service 30 False empty_world
     = (Inr example_service,
        snd (perform_stop_model no_failures example_deployer example_service 30 False empty_world))
   \<and> environ (snd (perform_stop_model no_failures example_deployer example_service 30 False
                     empty_world)) ''HF_TOKEN'' = None
   \<and> environ (snd (perform_stop_model no_failures example_deployer example_service 30 False
                     empty_world)) ''HF_NAMESPACE'' = None
   \<and> (Service_stop example_service 30 False, [''HF_TOKEN'' \<mapsto> ''hf_secret'', ''HF_NAMESPACE'' \<mapsto> ''acme''])
       \<in> set (new_calls empty_world
                (snd (perform_stop_model no_failures example_deployer example_service 30 False
                        empty_world)))"
proof -
  have run: "perform_stop_model no_failures example_deployer example_service 30 False empty_world
     = (Inr example_service,
        snd (perform_stop_model no_failures example_deployer example_service 30 False empty_world))"
    by (simp add: perform_stop_model_run no_failures_def example_deployer_def)
  have made: "(Service_stop example_service 30 False,
               [''HF_TOKEN'' \<mapsto> ''hf_secret'', ''HF_NAMESPACE'' \<mapsto> ''acme''])
       \<in> set (new_calls empty_world
                (snd (perform_stop_model no_failures example_deployer example_service 30 False
                        empty_world)))"
    by (simp add: perform_stop_model_run no_failures_def example_deployer_def empty_world_def)
  from credentials_only_inside_the_window[of no_failures example_deployer _ _ 30 empty_world
         example_service False] run
  have "environ (snd (perform_stop_model no_failures example_deployer example_service 30 False
                     empty_world)) ''HF_TOKEN'' = None
   \<and> environ (snd (perform_stop_model no_failures example_deployer example_service 30 False
                     empty_world)) ''HF_NAMESPACE'' = None"
    by blast
  with run made show ?thesis by blast
qed

text \<open>
  Claim C4. The external calls of \<open>_create_new_service\<close>, in order, are an initial segment
  of: \<open>save_artifact\<close> of the service under the artifact name at the derived version,
  \<open>log_artifact_metadata\<close>, \<open>service.start\<close> with the caller's timeout; deploy adds the
  two reads of \<open>Client()\<close>. So the start is made once at most, and only after the artifact
  was saved. When the artifact store accepts both calls and the start raises \<open>e\<close>, the
  method returns \<open>e\<close> itself and the log ends with the one start call, the artifact
  written before it; and deploy passes on, unchanged, whatever error and state
  \<open>_create_new_service\<close> ends with.
\<close>

theorem deploy_saves_artifact_before_start:
  "(let v = take UUID_SLICE_LENGTH (uuid_str id');
        service = \<lparr>uuid = id',
                   config = cfg\<lparr>endpoint_name := modify_endpoint_name (endpoint_name cfg) v\<rparr>\<rparr>;
        N = HUGGINGFACE_SERVICE_ARTIFACT X;
        c1 = Save_artifact service N v True;
        c2 = Log_artifact_metadata N v (N, uuid_str id', config service);
        c3 = Service_start service timeout;
        w1 = w\<lparr>calls := calls w @ [(c1, environ w)]\<rparr>;
        w2 = w\<lparr>calls := calls w @ [(c1, environ w), (c2, environ w)]\<rparr>;
        w3 = w\<lparr>calls := calls w @ [(c1, environ w), (c2, environ w), (c3, environ w)]\<rparr>
    in prefix (map fst (new_calls w (snd (create_new_service X id' timeout cfg w)))) [c1, c2, c3]
       \<and> (\<forall>e. raises X c1 w = None \<and> raises X c2 w1 = None \<and> raises X c3 w2 = Some e
              \<longrightarrow> create_new_service X id' timeout cfg w = (Inl e, w3))
       \<and> (\<forall>r w'. create_new_service X id' timeout cfg w = (Inr r, w')
              \<longrightarrow> r = service \<and> map fst (new_calls w w') = [c1, c2, c3])
       \<and> prefix (map fst (new_calls w (snd (perform_deploy_model X self id' cfg timeout w))))
                 [c1, c2, c3, Client_active_stack, Client_zen_store_type]
       \<and> (\<forall>e w'. CHR 0x00 \<notin> set (token self) \<and> CHR 0x00 \<notin> set (namespace self)
              \<and> create_new_service X id' timeout cfg (w\<lparr>environ := credentials self (environ w)\<rparr>)
                  = (Inl e, w')
              \<longrightarrow> perform_deploy_model X self id' cfg timeout w = (Inl e, w')))"
proof -
  define v where "v = take UUID_SLICE_LENGTH (uuid_str id')"
  define service where "service = \<lparr>uuid = id',
       config = cfg\<lparr>endpoint_name := modify_endpoint_name (endpoint_name cfg) v\<rparr>\<rparr>"
  define c1 where "c1 = Save_artifact service (HUGGINGFACE_SERVICE_ARTIFACT X) v True"
  define c2 where "c2 = Log_artifact_metadata (HUGGINGFACE_SERVICE_ARTIFACT X) v
       (HUGGINGFACE_SERVICE_ARTIFACT X, uuid_str id', config service)"
  define c3 where "c3 = Service_start service timeout"
  note names = v_def service_def c1_def c2_def c3_def
  have inner: "prefix (map fst (new_calls w0 (snd (create_new_service X id' timeout cfg w0))))
                 [c1, c2, c3]" for w0
    by (simp add: create_new_service_run names Let_def split: option.splits)
  have raised: "create_new_service X id' timeout cfg w
        = (Inl e, w\<lparr>calls := calls w @ [(c1, environ w), (c2, environ w), (c3, environ w)]\<rparr>)"
    if "raises X c1 w = None"
      and "raises X c2 (w\<lparr>calls := calls w @ [(c1, environ w)]\<rparr>) = None"
      and "raises X c3 (w\<lparr>calls := calls w @ [(c1, environ w), (c2, environ w)]\<rparr>) = Some e"
    for e
    using that by (simp add: create_new_service_run names Let_def)
  have returned: "r = service \<and> map fst (new_calls w w') = [c1, c2, c3]"
    if "create_new_service X id' timeout cfg w = (Inr r, w')" for r w'
    using create_new_service_result[OF that] by (simp add: names)
  have passed: "perform_deploy_model X self id' cfg timeout w = (Inl e, w')"
    if "CHR 0x00 \<notin> set (token self)" and "CHR 0x00 \<notin> set (namespace self)"
      and "create_new_service X id' timeout cfg (w\<lparr>environ := credentials self (environ w)\<rparr>)
             = (Inl e, w')"
    for e w'
    using that by (simp add: perform_deploy_model_run)
  have outer: "prefix (map fst (new_calls w (snd (perform_deploy_model X self id' cfg timeout w))))
                 [c1, c2, c3, Client_active_stack, Client_zen_store_type]"
  proof (cases "CHR 0x00 \<in> set (token self) \<or> CHR 0x00 \<in> set (namespace self)")
    case True
    then show ?thesis by (auto simp: perform_deploy_model_run)
  next
    case False
    define w1 where "w1 = w\<lparr>environ := credentials self (environ w)\<rparr>"
    obtain r w' where run: "create_new_service X id' timeout cfg w1 = (r, w')"
      by (cases "create_new_service X id' timeout cfg w1")
    obtain cs where cs: "calls w' = calls w @ cs"
      using create_new_service_calls_extend[of X id' timeout cfg w1] run by (auto simp: w1_def)
    have short: "prefix (map fst cs) [c1, c2, c3]"
      using inner[of w1] run cs by (simp add: w1_def)
    show ?thesis
    proof (cases r)
      case (Inl e)
      have "prefix [c1, c2, c3] [c1, c2, c3, Client_active_stack, Client_zen_store_type]"
        by simp
      with short have "prefix (map fst cs) [c1, c2, c3, Client_active_stack, Client_zen_store_type]"
        by (rule prefix_order.trans)
      then show ?thesis
        using False run cs Inl unfolding perform_deploy_model_run w1_def[symmetric] by simp
    next
      case (Inr s)
      have full: "map fst cs = [c1, c2, c3]"
        using create_new_service_result[of X id' timeout cfg w1 s w'] run Inr cs
        by (simp add: names w1_def)
      show ?thesis
        using False run cs Inr full unfolding perform_deploy_model_run w1_def[symmetric]
        by (simp add: Let_def split: option.splits)
    qed
  qed
  from inner[of w] raised returned passed outer show ?thesis
    unfolding Let_def names by blast
qed

theorem deploy_saves_artifact_before_start_witness:
  "map fst (calls (snd (perform_deploy_model remote_times_out example_deployer
                          0x123e4567e89b12d3a456426614174000 \<lparr>endpoint_name = ''demo''\<rparr> 300
                          empty_world)))
     = [Save_artifact \<lparr>uuid = 0x123e4567e89b12d3a456426614174000,
                        config = \<lparr>endpoint_name = ''zenml-demo123e4567''\<rparr>\<rparr>
          ''hf_deployment_service'' ''123e4567'' True,
        Log_artifact_metadata ''hf_deployment_service'' ''123e4567''
          (''hf_deployment_service'', ''123e4567-e89b-12d3-a456-426614174000'',
           \<lparr>endpoint_name = ''zenml-demo123e4567''\<rparr>),
        Service_start \<lparr>uuid = 0x123e4567e89b12d3a456426614174000,
                        config = \<lparr>endpoint_name = ''zenml-demo123e4567''\<rparr>\<rparr> 300]
   \<and> fst (perform_deploy_model remote_times_out example_deployer
            0x123e4567e89b12d3a456426614174000 \<lparr>endpoint_name = ''demo''\<rparr> 300 empty_world)
       = Inl (Raised ''timeout'')"
proof -
  have s: "uuid_str 0x123e4567e89b12d3a456426614174000 = ''123e4567-e89b-12d3-a456-426614174000''"
    by code_simp
  have n: "modify_endpoint_name ''demo'' ''123e4567'' = ''zenml-demo123e4567''"
    by (simp add: modify_endpoint_name_eq startswith_def)
  have inner: "create_new_service remote_times_out 0x123e4567e89b12d3a456426614174000 300
           \<lparr>endpoint_name = ''demo''\<rparr>
           (empty_world\<lparr>environ := credentials example_deployer (environ empty_world)\<rparr>)
       = (Inl (Raised ''timeout''),
          snd (create_new_service remote_times_out 0x123e4567e89b12d3a456426614174000 300
           \<lparr>endpoint_name = ''demo''\<rparr>
           (empty_world\<lparr>environ := credentials example_deployer (environ empty_world)\<rparr>)))"
    by (simp add: create_new_service_run remote_times_out_def Let_def)
  have ok: "CHR 0x00 \<notin> set (token example_deployer) \<and> CHR 0x00 \<notin> set (namespace example_deployer)"
    by (simp add: example_deployer_def)
  from deploy_saves_artifact_before_start[of "0x123e4567e89b12d3a456426614174000"
         "\<lparr>endpoint_name = ''demo''\<rparr>" remote_times_out 300 empty_world example_deployer]
    inner ok
  have run: "perform_deploy_model remote_times_out example_deployer
            0x123e4567e89b12d3a456426614174000 \<lparr>endpoint_name = ''demo''\<rparr> 300 empty_world
       = (Inl (Raised ''timeout''),
          snd (create_new_service remote_times_out 0x123e4567e89b12d3a456426614174000 300
           \<lparr>endpoint_name = ''demo''\<rparr>
           (empty_world\<lparr>environ := credentials example_deployer (environ empty_world)\<rparr>)))"
    unfolding Let_def by blast
  show ?thesis
    unfolding run
    by (simp add: create_new_service_run remote_times_out_def Let_def s n empty_world_def
          UUID_SLICE_LENGTH_def)
qed

text \<open>
  Claim C8, as stated, fails: \<open>perform_delete_model\<close> makes one external call, the remote
  stop, and nothing after it. No release of remote configuration follows the stop.
\<close>

theorem delete_makes_no_call_after_stop:
  "map fst (calls (snd (perform_delete_model no_failures example_deployer example_service 30 False
                          empty_world)))
     = [Service_stop example_service 30 False]
   \<and> \<not> stop_then_another
         (map fst (calls (snd (perform_delete_model no_failures example_deployer example_service
                                 30 False empty_world))))"
  by (simp add: perform_delete_model_run no_failures_def example_deployer_def empty_world_def)

text \<open>
  Claim C8, amended. \<open>perform_delete_model\<close> wraps credential setup, a single remote
  lifecycle call and credential teardown. For every service handle, with credentials
  that \<open>os.environ\<close> accepts (no null byte in the token or the namespace), it makes
  exactly one external call, \<open>service.stop(timeout, force)\<close> with the caller's timeout and
  force, while both variables hold the token and the namespace. With credentials that
  \<open>os.environ\<close> rejects, the setup raises \<open>ValueError\<close> and no call is made. In every case
  no call follows the stop, and on normal return both variables are absent again.
\<close>

theorem delete_is_setup_stop_teardown:
  "map fst (new_calls w (snd (perform_delete_model X self service timeout force w)))
     = (if CHR 0x00 \<in> set (token self) \<or> CHR 0x00 \<in> set (namespace self) then []
        else [Service_stop service timeout force])
   \<and> \<not> stop_then_another
         (map fst (new_calls w (snd (perform_delete_model X self service timeout force w))))
   \<and> (\<forall>c env. (c, env) \<in> set (new_calls w (snd (perform_delete_model X self service timeout
                                                      force w)))
        \<longrightarrow> env ''HF_TOKEN'' = Some (token self) \<and> env ''HF_NAMESPACE'' = Some (namespace self))
   \<and> (\<forall>w'. perform_delete_model X self service timeout force w = (Inr (), w')
        \<longrightarrow> map fst (new_calls w w') = [Service_stop service timeout force]
           \<and> environ w' ''HF_TOKEN'' = None \<and> environ w' ''HF_NAMESPACE'' = None)
   \<and> (CHR 0x00 \<in> set (token self) \<or> CHR 0x00 \<in> set (namespace self)
        \<longrightarrow> fst (perform_delete_model X self service timeout force w) = Inl ValueError)"
proof (intro conjI allI impI)
  assume "CHR 0x00 \<in> set (token self) \<or> CHR 0x00 \<in> set (namespace self)"
  then show "fst (perform_delete_model X self service timeout force w) = Inl ValueError"
    by (auto simp: perform_delete_model_run)
next
  show log: "map fst (new_calls w (snd (perform_delete_model X self service timeout force w)))
     = (if CHR 0x00 \<in> set (token self) \<or> CHR 0x00 \<in> set (namespace self) then []
        else [Service_stop service timeout force])"
    by (simp add: perform_delete_model_run Let_def split: option.splits)
  show "\<not> stop_then_another
         (map fst (new_calls w (snd (perform_delete_model X self service timeout force w))))"
    unfolding log by simp
next
  fix c env
  assume "(c, env) \<in> set (new_calls w (snd (perform_delete_model X self service timeout force w)))"
  then show "env ''HF_TOKEN'' = Some (token self)" "env ''HF_NAMESPACE'' = Some (namespace self)"
    by (blast dest: delete_window)+
next
  fix w'
  assume run: "perform_delete_model X self service timeout force w = (Inr (), w')"
  then show "environ w' ''HF_TOKEN'' = None" "environ w' ''HF_NAMESPACE'' = None"
    by (blast dest: delete_normal)+
  from run show "map fst (new_calls w w') = [Service_stop service timeout force]"
    by (auto simp: perform_delete_model_run Let_def split: if_splits option.splits)
qed

theorem delete_is_setup_stop_teardown_witness:
  "perform_delete_model no_failures example_deployer example_service 30 False empty_world
     = (Inr (), snd (perform_delete_model no_failures example_deployer example_service 30 False
                       empty_world))
   \<and> map fst (new_calls empty_world
                (snd (perform_delete_model no_failures example_deployer example_service 30 False
                        empty_world)))
       = [Service_stop example_service 30 False]
   \<and> environ (snd (perform_delete_model no_failures example_deployer example_service 30 False
                     empty_world)) ''HF_TOKEN'' = None"
proof -
  have run: "perform_delete_model no_failures example_deployer example_service 30 False empty_world
     = (Inr (), snd (perform_delete_model no_failures example_deployer example_service 30 False
                       empty_world))"
    by (simp add: perform_delete_model_run no_failures_def example_deployer_def)
  from delete_is_setup_stop_teardown[of empty_world no_failures example_deployer example_service
         30 False] run
  show ?thesis by blast
qed

text \<open>
  Claim C10. \<open>prepare_environment_variable(set=False)\<close> never raises, whatever the
  environment holds, also when the two variables are already absent (it removes them with
  a defaulted \<open>pop\<close>); it is idempotent; and after any number \<open>n + 1\<close> of consecutive
  calls, each of which returns normally, neither \<open>HF_TOKEN\<close> nor \<open>HF_NAMESPACE\<close> is in the
  environment.
\<close>

theorem prepare_environment_variable_unset_total:
  "fst (prepare_environment_variable self False w) = Inr ()
   \<and> environ (snd (prepare_environment_variable self False w)) ''HF_TOKEN'' = None
   \<and> environ (snd (prepare_environment_variable self False w)) ''HF_NAMESPACE'' = None
   \<and> prepare_environment_variable self False (snd (prepare_environment_variable self False w))
       = prepare_environment_variable self False w
   \<and> fst (prepare_environment_variable self False
             (((\<lambda>w. snd (prepare_environment_variable self False w)) ^^ n) w)) = Inr ()
   \<and> environ (((\<lambda>w. snd (prepare_environment_variable self False w)) ^^ Suc n) w) ''HF_TOKEN''
       = None
   \<and> environ (((\<lambda>w. snd (prepare_environment_variable self False w)) ^^ Suc n) w)
         ''HF_NAMESPACE'' = None"
  by (simp add: prepare_False)

section \<open>Properties of the materializer\<close>

subsection \<open>Paths and temporary names\<close>

lemma path_join_relative:
  "\<not> startswith b ''/'' \<Longrightarrow> path_join a b = path_join a [] @ b"
  by (simp add: path_join_def startswith_def)

lemma path_join_DEFAULT_FILENAME:
  "path_join a DEFAULT_FILENAME
     = (if a = [] \<or> last a = CHR ''/'' then a @ ''model.json'' else a @ ''/model.json'')"
  by (simp add: path_join_def DEFAULT_FILENAME_def startswith_def)

lemma last_component_path_join:
  assumes "CHR ''/'' \<notin> set b"
  shows "takeWhile (\<lambda>c. c \<noteq> CHR ''/'') (rev (path_join a b)) = rev b"
proof -
  have b: "\<not> startswith b ''/''"
    using assms by (cases b) (auto simp: startswith_def)
  have split: "takeWhile (\<lambda>c. c \<noteq> CHR ''/'') (rev b @ t)
                 = rev b @ takeWhile (\<lambda>c. c \<noteq> CHR ''/'') t" for t
    using assms by (intro takeWhile_append2) auto
  show ?thesis
  proof (cases "a = [] \<or> last a = CHR ''/''")
    case True
    then have "takeWhile (\<lambda>c. c \<noteq> CHR ''/'') (rev a) = []"
      by (cases a rule: rev_cases) auto
    then show ?thesis
      using True b by (simp add: path_join_def split)
  next
    case False
    then show ?thesis
      using b by (simp add: path_join_def split)
  qed
qed

lemma temporary_file_is_not_the_artifact:
  assumes "CHR ''/'' \<notin> set n"
  shows "path_join d (''tmp'' @ n @ ''.json'') \<noteq> path_join uri DEFAULT_FILENAME"
proof
  assume eq: "path_join d (''tmp'' @ n @ ''.json'') = path_join uri DEFAULT_FILENAME"
  have "takeWhile (\<lambda>c. c \<noteq> CHR ''/'') (rev (path_join d (''tmp'' @ n @ ''.json'')))
          = rev (''tmp'' @ n @ ''.json'')"
    using assms by (intro last_component_path_join) simp
  moreover have "takeWhile (\<lambda>c. c \<noteq> CHR ''/'') (rev (path_join uri DEFAULT_FILENAME))
          = rev DEFAULT_FILENAME"
    by (intro last_component_path_join) (simp add: DEFAULT_FILENAME_def)
  ultimately have "rev (''tmp'' @ n @ ''.json'') = rev DEFAULT_FILENAME"
    using eq by simp
  then have "''tmp'' @ n @ ''.json'' = DEFAULT_FILENAME"
    by (simp only: rev_is_rev_conv)
  then show False
    by (simp add: DEFAULT_FILENAME_def)
qed

lemma first_unused_Inr:
  "first_unused mk ns fs = Inr p \<Longrightarrow> fs p = None \<and> p \<in> mk ` set ns"
  by (induction ns) (auto split: if_splits)

lemma first_unused_Inl:
  "first_unused mk ns fs = Inl e \<Longrightarrow> e = FileExistsError"
  by (induction ns) (auto split: if_splits)

subsection \<open>What \<open>save\<close> and \<open>load\<close> do, step by step\<close>

lemma save_run:
  "save L fileio_copy T uri booster fs =
     (case first_unused (\<lambda>n. path_join (gettempdir T) (''tmp'' @ n @ ''.json'')) (names T) fs of
        Inl e \<Rightarrow> (Inl e, fs)
      | Inr f_name \<Rightarrow>
          (case save_model L booster of
             Inl e \<Rightarrow> (Inl e, fs)
           | Inr json \<Rightarrow>
               (Inr (), (fs(path_join uri DEFAULT_FILENAME \<mapsto> File json))(f_name := None))))"
proof (cases "first_unused (\<lambda>n. path_join (gettempdir T) (''tmp'' @ n @ ''.json'')) (names T) fs")
  case (Inl e)
  then show ?thesis by (simp add: save_def NamedTemporaryFile_def)
next
  case (Inr f_name)
  then have fresh: "fs f_name = None" by (blast dest: first_unused_Inr)
  then have restored: "(fs(f_name \<mapsto> File []))(f_name := None) = fs" by auto
  show ?thesis
    using Inr restored
    by (auto simp: save_def NamedTemporaryFile_def Booster_save_model_def fileio_copy_def
          unlink_def Let_def split: sum.splits)
qed

lemma load_run:
  "load L fileio_copy T uri fs =
     (case first_unused (\<lambda>n. path_join (gettempdir T) (''zenml-temp-'' @ n)) (names T) fs of
        Inl e \<Rightarrow> (Inl e, fs)
      | Inr temp_dir \<Rightarrow>
          (case (fs(temp_dir \<mapsto> Dir)) (path_join uri DEFAULT_FILENAME) of
             Some (File json) \<Rightarrow>
               (load_model L json,
                rmtree temp_dir (fs(temp_dir \<mapsto> Dir,
                                    path_join temp_dir DEFAULT_FILENAME \<mapsto> File json)))
           | _ \<Rightarrow> (Inl (FileNotFoundError (path_join uri DEFAULT_FILENAME)),
                   rmtree temp_dir (fs(temp_dir \<mapsto> Dir)))))"
  by (simp add: load_def TemporaryDirectory_def fileio_copy_def Booster_load_model_def Let_def
        split: sum.splits option.splits node.splits)

lemma rmtree_removes:
  "rmtree d fs d = None"
  "rmtree d fs (path_join d DEFAULT_FILENAME) = None"
  "startswith p (path_join d []) \<Longrightarrow> rmtree d fs p = None"
proof -
  have "path_join d DEFAULT_FILENAME = path_join d [] @ DEFAULT_FILENAME"
    by (rule path_join_relative) (simp add: DEFAULT_FILENAME_def startswith_def)
  then show "rmtree d fs (path_join d DEFAULT_FILENAME) = None"
    by (simp add: rmtree_def startswith_def)
qed (simp_all add: rmtree_def)

lemma rmtree_keeps:
  "p \<noteq> d \<Longrightarrow> \<not> startswith p (path_join d []) \<Longrightarrow> rmtree d fs p = fs p"
  by (simp add: rmtree_def)

lemma Booster_load_model_reads: "snd (Booster_load_model L fname fs) = fs"
  by (simp add: Booster_load_model_def split: option.splits node.splits)

lemma load_any_copy:
  "load L copy T uri fs =
     (case first_unused (\<lambda>n. path_join (gettempdir T) (''zenml-temp-'' @ n)) (names T) fs of
        Inl e \<Rightarrow> (Inl e, fs)
      | Inr temp_dir \<Rightarrow>
          (case copy (path_join uri DEFAULT_FILENAME) (path_join temp_dir DEFAULT_FILENAME)
                  (fs(temp_dir \<mapsto> Dir)) of
             (Inl e, fs2) \<Rightarrow> (Inl e, rmtree temp_dir fs2)
           | (Inr u, fs2) \<Rightarrow>
               (fst (Booster_load_model L (path_join temp_dir DEFAULT_FILENAME) fs2),
                rmtree temp_dir fs2)))"
  by (simp add: load_def TemporaryDirectory_def Let_def case_prod_beta Booster_load_model_reads
        split: sum.splits prod.splits)

lemma save_any_copy:
  "save L copy T uri booster fs =
     (case first_unused (\<lambda>n. path_join (gettempdir T) (''tmp'' @ n @ ''.json'')) (names T) fs of
        Inl e \<Rightarrow> (Inl e, fs)
      | Inr f_name \<Rightarrow>
          (case save_model L booster of
             Inl e \<Rightarrow> (Inl e, fs)
           | Inr json \<Rightarrow>
               (case copy f_name (path_join uri DEFAULT_FILENAME) (fs(f_name \<mapsto> File json)) of
                  (r, fs2) \<Rightarrow> (r, fs2(f_name := None)))))"
proof (cases "first_unused (\<lambda>n. path_join (gettempdir T) (''tmp'' @ n @ ''.json'')) (names T) fs")
  case (Inl e)
  then show ?thesis by (simp add: save_def NamedTemporaryFile_def)
next
  case (Inr f_name)
  then have "fs f_name = None" by (blast dest: first_unused_Inr)
  then have restored: "(fs(f_name \<mapsto> File []))(f_name := None) = fs" by auto
  show ?thesis
    using Inr restored
    by (auto simp: save_def NamedTemporaryFile_def Booster_save_model_def unlink_def Let_def
          split: sum.splits prod.splits)
qed

subsection \<open>Claims about the materializer\<close>

text \<open>Concrete inputs: a library whose documents are the models themselves, one that fails.\<close>

lemma identity_library_round_trip:
  "\<forall>b json. save_model \<lparr>save_model = Inr, load_model = Inr\<rparr> b = Inr json
     \<longrightarrow> (\<exists>b'. load_model \<lparr>save_model = Inr, load_model = Inr\<rparr> json = Inr b'
              \<and> (\<lambda>m t. m @ t) b' ''input'' = (\<lambda>m t. m @ t) (b :: string) ''input'')"
  by simp

text \<open>
  Claim C5. Take a boosting library whose loader, given a document its saver wrote,
  returns a model with the same prediction on the test input \<open>x\<close>, and temporary names
  without a separator. Whenever \<open>save\<close> returns normally, the artifact store then holds
  the saver's document at \<open>model.json\<close> inside the URI directory and is unchanged at every
  other path; and \<open>load\<close> from the same URI (given a temporary name that is free) returns
  normally, with a model whose prediction on \<open>x\<close> is the original's. \<open>load\<close> reads that one
  path: from any store that holds a document there it returns what the loader makes of it.
\<close>

theorem save_then_load_round_trip:
  assumes native: "\<forall>b json. save_model L b = Inr json
                     \<longrightarrow> (\<exists>b'. load_model L json = Inr b' \<and> predict b' x = predict b x)"
    and sep: "\<forall>n \<in> set (names T). CHR ''/'' \<notin> set n"
    and saved: "save L fileio_copy T uri booster fs = (Inr (), fs')"
    and room: "first_unused (\<lambda>n. path_join (gettempdir T') (''zenml-temp-'' @ n)) (names T') fs'
                 \<noteq> Inl FileExistsError"
  shows "\<exists>json b'. save_model L booster = Inr json
           \<and> path_join uri DEFAULT_FILENAME
               = (if uri = [] \<or> last uri = CHR ''/'' then uri @ ''model.json''
                  else uri @ ''/model.json'')
           \<and> fs' (path_join uri DEFAULT_FILENAME) = Some (File json)
           \<and> (\<forall>p. p \<noteq> path_join uri DEFAULT_FILENAME \<longrightarrow> fs' p = fs p)
           \<and> fst (load L fileio_copy T' uri fs') = Inr b'
           \<and> predict b' x = predict booster x
           \<and> (\<forall>fs0 json0. fs0 (path_join uri DEFAULT_FILENAME) = Some (File json0)
                 \<and> first_unused (\<lambda>n. path_join (gettempdir T') (''zenml-temp-'' @ n)) (names T') fs0
                     \<noteq> Inl FileExistsError
                 \<longrightarrow> fst (load L fileio_copy T' uri fs0) = load_model L json0)"
proof -
  let ?filepath = "path_join uri DEFAULT_FILENAME"
  obtain f_name where f: "first_unused (\<lambda>n. path_join (gettempdir T) (''tmp'' @ n @ ''.json''))
                            (names T) fs = Inr f_name"
    using saved by (auto simp: save_run split: sum.splits)
  obtain json where json: "save_model L booster = Inr json"
    and fs': "fs' = (fs(?filepath \<mapsto> File json))(f_name := None)"
    using saved f by (auto simp: save_run split: sum.splits)
  from f obtain n where n: "n \<in> set (names T)"
    and f_name: "f_name = path_join (gettempdir T) (''tmp'' @ n @ ''.json'')"
    and fresh: "fs f_name = None"
    by (auto dest: first_unused_Inr)
  have distinct: "f_name \<noteq> ?filepath"
    unfolding f_name using sep n by (intro temporary_file_is_not_the_artifact) blast
  have written: "fs' ?filepath = Some (File json)"
    using distinct by (simp add: fs')
  have others: "fs' p = fs p" if "p \<noteq> ?filepath" for p
    using that fresh by (simp add: fs')
  have reads: "fst (load L fileio_copy T' uri fs0) = load_model L json0"
    if at: "fs0 ?filepath = Some (File json0)"
      and free: "first_unused (\<lambda>n. path_join (gettempdir T') (''zenml-temp-'' @ n)) (names T') fs0
                   \<noteq> Inl FileExistsError"
    for fs0 json0
  proof -
    obtain temp_dir where d: "first_unused (\<lambda>n. path_join (gettempdir T') (''zenml-temp-'' @ n))
                                (names T') fs0 = Inr temp_dir"
      using free
      by (cases "first_unused (\<lambda>n. path_join (gettempdir T') (''zenml-temp-'' @ n)) (names T') fs0")
         (auto dest: first_unused_Inl)
    then have "fs0 temp_dir = None" by (blast dest: first_unused_Inr)
    with at have "temp_dir \<noteq> ?filepath" by auto
    then show ?thesis using d at by (simp add: load_run)
  qed
  from native json obtain b' where b': "load_model L json = Inr b'"
    and same: "predict b' x = predict booster x"
    by blast
  have loaded: "fst (load L fileio_copy T' uri fs') = Inr b'"
    using reads[OF written room] b' by simp
  from json written others loaded same reads path_join_DEFAULT_FILENAME[of uri]
  show ?thesis by blast
qed

theorem save_then_load_round_trip_witness:
  "save \<lparr>save_model = Inr, load_model = Inr\<rparr> fileio_copy
        \<lparr>gettempdir = ''/tmp'', names = [''k3x9_q0a'']\<rparr>
        ''/store/artifact'' ''booster'' Map.empty
     = (Inr (), [''/store/artifact/model.json'' \<mapsto> File ''booster''])
   \<and> fst (load \<lparr>save_model = Inr, load_model = Inr\<rparr> fileio_copy
             \<lparr>gettempdir = ''/tmp'', names = [''k3x9_q0a'']\<rparr> ''/store/artifact''
             [''/store/artifact/model.json'' \<mapsto> File ''booster''])
       = Inr ''booster''"
proof -
  let ?L = "\<lparr>save_model = Inr, load_model = Inr\<rparr> :: string xgb"
  let ?T = "\<lparr>gettempdir = ''/tmp'', names = [''k3x9_q0a'']\<rparr>"
  let ?fs' = "[''/store/artifact/model.json'' \<mapsto> File ''booster'']"
  have saved: "save ?L fileio_copy ?T ''/store/artifact'' ''booster'' Map.empty = (Inr (), ?fs')"
    by (simp add: save_run path_join_def DEFAULT_FILENAME_def startswith_def) 
  have sep: "\<forall>n \<in> set (names ?T). CHR ''/'' \<notin> set n"
    by simp
  have room: "first_unused (\<lambda>n. path_join (gettempdir ?T) (''zenml-temp-'' @ n)) (names ?T) ?fs'
                \<noteq> Inl FileExistsError"
    by (simp add: path_join_def startswith_def)
  from save_then_load_round_trip[where L = ?L and predict = "\<lambda>m t. m @ t" and x = "''input''"
         and T = ?T and T' = ?T and uri = "''/store/artifact''" and booster = "''booster''"
         and fs = Map.empty and fs' = ?fs', OF identity_library_round_trip sep saved room]
  obtain b' where "fst (load ?L fileio_copy ?T ''/store/artifact'' ?fs') = Inr b'"
    and "fst (load ?L fileio_copy ?T ''/store/artifact'' ?fs') = load_model ?L ''booster''"
    by (auto simp: path_join_DEFAULT_FILENAME)
  then have "fst (load ?L fileio_copy ?T ''/store/artifact'' ?fs') = Inr ''booster''"
    by simp
  with saved show ?thesis by blast
qed

text \<open>
  Claim C6. Whatever \<open>fileio.copy\<close> and the boosting library do: if \<open>tempfile\<close> finds no
  name, nothing was created and its error is returned with the store untouched;
  otherwise the temporary directory of \<open>load\<close> (with everything inside, the staged
  \<open>model.json\<close> included) and the temporary file of \<open>save\<close> are gone when the method
  ends, normally or not. An error of the copy, of the loader or of the saver is the
  method's result as it is, and the state is the one that failing call left, less the
  temporary resource: no second attempt, and nothing else undone. With the \<open>fileio_copy\<close> of the
  spec, \<open>load\<close> leaves every path outside its temporary directory as it was, and \<open>save\<close>
  every path but its temporary file and the artifact file.
\<close>

theorem temporary_resources_released_errors_propagate:
  "(\<forall>e. first_unused (\<lambda>n. path_join (gettempdir T) (''zenml-temp-'' @ n)) (names T) fs = Inl e
       \<longrightarrow> load L copy T uri fs = (Inl e, fs))
   \<and> (\<forall>d. first_unused (\<lambda>n. path_join (gettempdir T) (''zenml-temp-'' @ n)) (names T) fs = Inr d
       \<longrightarrow> snd (load L copy T uri fs) d = None
          \<and> snd (load L copy T uri fs) (path_join d DEFAULT_FILENAME) = None
          \<and> (\<forall>p. startswith p (path_join d []) \<longrightarrow> snd (load L copy T uri fs) p = None)
          \<and> (\<forall>e fs2. copy (path_join uri DEFAULT_FILENAME) (path_join d DEFAULT_FILENAME)
                         (fs(d \<mapsto> Dir)) = (Inl e, fs2)
                \<longrightarrow> load L copy T uri fs = (Inl e, rmtree d fs2))
          \<and> (\<forall>u fs2 json e. copy (path_join uri DEFAULT_FILENAME) (path_join d DEFAULT_FILENAME)
                               (fs(d \<mapsto> Dir)) = (Inr u, fs2)
                  \<and> fs2 (path_join d DEFAULT_FILENAME) = Some (File json)
                  \<and> load_model L json = Inl e
                \<longrightarrow> load L copy T uri fs = (Inl e, rmtree d fs2))
          \<and> (\<forall>p. p \<noteq> d \<and> \<not> startswith p (path_join d [])
                \<longrightarrow> snd (load L fileio_copy T uri fs) p = fs p))
   \<and> (\<forall>e. first_unused (\<lambda>n. path_join (gettempdir T) (''tmp'' @ n @ ''.json'')) (names T) fs = Inl e
       \<longrightarrow> save L copy T uri booster fs = (Inl e, fs))
   \<and> (\<forall>f. first_unused (\<lambda>n. path_join (gettempdir T) (''tmp'' @ n @ ''.json'')) (names T) fs = Inr f
       \<longrightarrow> snd (save L copy T uri booster fs) f = None
          \<and> (\<forall>e. save_model L booster = Inl e \<longrightarrow> save L copy T uri booster fs = (Inl e, fs))
          \<and> (\<forall>json e fs2. save_model L booster = Inr json
                  \<and> copy f (path_join uri DEFAULT_FILENAME) (fs(f \<mapsto> File json)) = (Inl e, fs2)
                \<longrightarrow> save L copy T uri booster fs = (Inl e, fs2(f := None)))
          \<and> (\<forall>p. p \<noteq> f \<and> p \<noteq> path_join uri DEFAULT_FILENAME
                \<longrightarrow> snd (save L fileio_copy T uri booster fs) p = fs p))"
proof (intro conjI allI impI)
  fix e
  assume "first_unused (\<lambda>n. path_join (gettempdir T) (''zenml-temp-'' @ n)) (names T) fs = Inl e"
  then show "load L copy T uri fs = (Inl e, fs)"
    by (simp add: load_any_copy)
next
  fix e
  assume "first_unused (\<lambda>n. path_join (gettempdir T) (''tmp'' @ n @ ''.json'')) (names T) fs = Inl e"
  then show "save L copy T uri booster fs = (Inl e, fs)"
    by (simp add: save_any_copy)
next
  fix d
  assume d: "first_unused (\<lambda>n. path_join (gettempdir T) (''zenml-temp-'' @ n)) (names T) fs = Inr d"
  obtain r fs2 where c: "copy (path_join uri DEFAULT_FILENAME) (path_join d DEFAULT_FILENAME)
                           (fs(d \<mapsto> Dir)) = (r, fs2)"
    by (cases "copy (path_join uri DEFAULT_FILENAME) (path_join d DEFAULT_FILENAME) (fs(d \<mapsto> Dir))")
  have state: "snd (load L copy T uri fs) = rmtree d fs2"
    using d c by (simp add: load_any_copy split: sum.splits)
  show "snd (load L copy T uri fs) d = None"
    "snd (load L copy T uri fs) (path_join d DEFAULT_FILENAME) = None"
    by (simp_all add: state rmtree_removes)
  show "snd (load L copy T uri fs) p = None" if "startswith p (path_join d [])" for p
    using that by (simp add: state rmtree_removes)
  show "load L copy T uri fs = (Inl e, rmtree d fs3)"
    if "copy (path_join uri DEFAULT_FILENAME) (path_join d DEFAULT_FILENAME) (fs(d \<mapsto> Dir))
          = (Inl e, fs3)" for e fs3
    using that d by (simp add: load_any_copy)
  show "load L copy T uri fs = (Inl e, rmtree d fs3)"
    if "copy (path_join uri DEFAULT_FILENAME) (path_join d DEFAULT_FILENAME) (fs(d \<mapsto> Dir))
          = (Inr u, fs3)
        \<and> fs3 (path_join d DEFAULT_FILENAME) = Some (File json) \<and> load_model L json = Inl e"
    for u fs3 json e
    using that d by (simp add: load_any_copy Booster_load_model_def)
  show "snd (load L fileio_copy T uri fs) p = fs p"
    if "p \<noteq> d \<and> \<not> startswith p (path_join d [])" for p
  proof -
    have "p \<noteq> path_join d DEFAULT_FILENAME"
      using that rmtree_removes(2)[of d "Map.empty(p \<mapsto> Dir)"] rmtree_keeps[of p d "Map.empty(p \<mapsto> Dir)"]
      by auto
    then show ?thesis
      using that d
      by (auto simp: load_run rmtree_keeps split: option.splits node.splits)
  qed
next
  fix f
  assume f: "first_unused (\<lambda>n. path_join (gettempdir T) (''tmp'' @ n @ ''.json'')) (names T) fs = Inr f"
  then have fresh: "fs f = None" by (blast dest: first_unused_Inr)
  show "snd (save L copy T uri booster fs) f = None"
    using f fresh by (simp add: save_any_copy split: sum.splits prod.splits)
  show "save L copy T uri booster fs = (Inl e, fs)" if "save_model L booster = Inl e" for e
    using that f by (simp add: save_any_copy)
  show "save L copy T uri booster fs = (Inl e, fs2(f := None))"
    if "save_model L booster = Inr json
        \<and> copy f (path_join uri DEFAULT_FILENAME) (fs(f \<mapsto> File json)) = (Inl e, fs2)"
    for json e fs2
    using that f by (simp add: save_any_copy)
  show "snd (save L fileio_copy T uri booster fs) p = fs p"
    if "p \<noteq> f \<and> p \<noteq> path_join uri DEFAULT_FILENAME" for p
    using that f by (simp add: save_run split: sum.splits)
qed

theorem temporary_resources_released_errors_propagate_witness:
  "save \<lparr>save_model = (\<lambda>b. Inl (Raised ''XGBoostError'')), load_model = Inr\<rparr> fileio_copy
        \<lparr>gettempdir = ''/tmp'', names = [''k3x9_q0a'']\<rparr> ''/store/artifact'' ''booster''
        Map.empty
     = (Inl (Raised ''XGBoostError''), Map.empty)
   \<and> load \<lparr>save_model = Inr, load_model = (\<lambda>json. Inl (Raised ''XGBoostError''))\<rparr> fileio_copy
        \<lparr>gettempdir = ''/tmp'', names = [''k3x9_q0a'']\<rparr> ''/store/artifact''
        [''/store/artifact/model.json'' \<mapsto> File ''booster'']
     = (Inl (Raised ''XGBoostError''),
        rmtree ''/tmp/zenml-temp-k3x9_q0a''
          [''/store/artifact/model.json'' \<mapsto> File ''booster'',
           ''/tmp/zenml-temp-k3x9_q0a'' \<mapsto> Dir,
           ''/tmp/zenml-temp-k3x9_q0a/model.json'' \<mapsto> File ''booster''])
   \<and> snd (load \<lparr>save_model = Inr, load_model = (\<lambda>json. Inl (Raised ''XGBoostError''))\<rparr>
             fileio_copy \<lparr>gettempdir = ''/tmp'', names = [''k3x9_q0a'']\<rparr> ''/store/artifact''
             [''/store/artifact/model.json'' \<mapsto> File ''booster''])
         ''/tmp/zenml-temp-k3x9_q0a/model.json'' = None"
proof -
  let ?T = "\<lparr>gettempdir = ''/tmp'', names = [''k3x9_q0a'']\<rparr>"
  let ?S = "\<lparr>save_model = (\<lambda>b. Inl (Raised ''XGBoostError'')), load_model = Inr\<rparr> :: string xgb"
  let ?L = "\<lparr>save_model = Inr, load_model = (\<lambda>json. Inl (Raised ''XGBoostError''))\<rparr> :: string xgb"
  let ?fs = "[''/store/artifact/model.json'' \<mapsto> File ''booster'']"
  have f: "first_unused (\<lambda>n. path_join (gettempdir ?T) (''tmp'' @ n @ ''.json'')) (names ?T) Map.empty
             = Inr ''/tmp/tmpk3x9_q0a.json''"
    by (simp add: path_join_def startswith_def)
  have d: "first_unused (\<lambda>n. path_join (gettempdir ?T) (''zenml-temp-'' @ n)) (names ?T) ?fs
             = Inr ''/tmp/zenml-temp-k3x9_q0a''"
    by (simp add: path_join_def startswith_def)
  have tf: "path_join ''/tmp/zenml-temp-k3x9_q0a'' DEFAULT_FILENAME
              = ''/tmp/zenml-temp-k3x9_q0a/model.json''"
    by (simp add: path_join_DEFAULT_FILENAME)
  have c: "fileio_copy (path_join ''/store/artifact'' DEFAULT_FILENAME)
             (path_join ''/tmp/zenml-temp-k3x9_q0a'' DEFAULT_FILENAME)
             (?fs(''/tmp/zenml-temp-k3x9_q0a'' \<mapsto> Dir))
           = (Inr (), ?fs(''/tmp/zenml-temp-k3x9_q0a'' \<mapsto> Dir,
                          ''/tmp/zenml-temp-k3x9_q0a/model.json'' \<mapsto> File ''booster''))"
    by (simp add: fileio_copy_def path_join_DEFAULT_FILENAME)
  note save_inst = temporary_resources_released_errors_propagate[where L = ?S and copy = fileio_copy
      and T = ?T and uri = "''/store/artifact''" and booster = "''booster''" and fs = Map.empty]
  note load_inst = temporary_resources_released_errors_propagate[where L = ?L and copy = fileio_copy
      and T = ?T and uri = "''/store/artifact''" and booster = "''booster''" and fs = ?fs]
  have s1: "save ?S fileio_copy ?T ''/store/artifact'' ''booster'' Map.empty
              = (Inl (Raised ''XGBoostError''), Map.empty)"
    using save_inst f by simp
  have l1: "load ?L fileio_copy ?T ''/store/artifact'' ?fs
     = (Inl (Raised ''XGBoostError''),
        rmtree ''/tmp/zenml-temp-k3x9_q0a''
          (?fs(''/tmp/zenml-temp-k3x9_q0a'' \<mapsto> Dir,
               ''/tmp/zenml-temp-k3x9_q0a/model.json'' \<mapsto> File ''booster'')))"
    using load_inst d c by (simp add: tf)
  have l2: "snd (load ?L fileio_copy ?T ''/store/artifact'' ?fs)
              ''/tmp/zenml-temp-k3x9_q0a/model.json'' = None"
    using load_inst d tf by simp
  from s1 l1 l2 show ?thesis by simp
qed

section \<open>Properties of the datasource\<close>

subsection \<open>Paths\<close>








subsection \<open>Resolution\<close>












lemma resolve_logged [simp]: "resolve (w\<lparr>copy_dir_calls := l\<rparr>) s = resolve w s"
  by (simp add: resolve_def)

subsection \<open>What \<open>process\<close> does\<close>


subsection \<open>Claims about the datasource\<close>



text \<open>
  Claim C9. \<open>process\<close> never reads the schema: replacing the schema of a datasource by any
  other value, \<open>None\<close> included, leaves the result of \<open>process\<close> the same, for every output
  path and every state of the file tree; two datasources constructed with the same name
  and path and any two schemas have the same effect.
\<close>

theorem process_ignores_schema:
  "process (self\<lparr>schema := schema'\<rparr>) output_path w = process self output_path w
   \<and> process (init name' path' schema1) output_path w
       = process (init name' path' schema2) output_path w
   \<and> process (init name' path' (Some schema1')) output_path w
       = process (init name' path' None) output_path w"
  by (simp add: process_def init_def)

end
